theory Spec2Isabelle
  imports Main "HOL-Library.Sublist"
begin

section \<open>JavaScript values that the error-protection modules handle\<close>

text \<open>
  JSON data as \<open>response.json()\<close> and \<open>JSON.parse\<close> deliver it. Numbers are integers
  here (timestamps in milliseconds); an object is the list of its properties.
\<close>

datatype json =
    JNull
  | JBool bool
  | JNum int
  | JStr string
  | JArr "json list"
  | JObj "(string \<times> json) list"

text \<open>JavaScript truthiness of a JSON value, as \<open>a && b\<close> tests it.\<close>

fun truthy :: "json \<Rightarrow> bool" where
  "truthy JNull = False"
| "truthy (JBool b) = b"
| "truthy (JNum n) = (n \<noteq> 0)"
| "truthy (JStr s) = (s \<noteq> [])"
| "truthy (JArr xs) = True"
| "truthy (JObj kvs) = True"

text \<open>
  Reading a property of a JSON value: \<open>None\<close> is \<open>undefined\<close>. Only objects carry
  properties such as \<open>updatedAt\<close>.
\<close>

fun get_prop :: "json \<Rightarrow> string \<Rightarrow> json option" where
  "get_prop (JObj kvs) k = map_of kvs k"
| "get_prop v k = None"

text \<open>
  A constructor function is identified by its name. An \<open>Error\<close> object carries its
  constructor, its \<open>name\<close> and its \<open>message\<close>; the two need not agree (a
  \<open>DOMException\<close> is named \<open>AbortError\<close>).
\<close>

datatype ctor = Ctor string

record js_error =
  constructor :: ctor
  name :: string
  message :: string

text \<open>
  Anything that can be thrown or rejected with: \<open>undefined\<close>, \<open>null\<close>, an \<open>Error\<close>
  instance, a symbol (with its description), an object without a prototype
  (\<open>Object.create(null)\<close>), or any other value, of which the code only reads the
  constructor and the string form. A symbol and an object without a prototype are the
  values for which a conversion to a string throws.
\<close>

datatype js_value =
    JSUndefined
  | JSNull
  | JSOther ctor string
  | JSSymbol string
  | JSBare
  | JSErrorObject js_error

text \<open>\<open>new Error(msg)\<close>, and a \<open>TypeError\<close> that the runtime throws.\<close>

definition new_Error :: "string \<Rightarrow> js_error" where
  "new_Error msg = \<lparr>constructor = Ctor ''Error'', name = ''Error'', message = msg\<rparr>"

definition new_TypeError :: "string \<Rightarrow> js_value" where
  "new_TypeError msg =
     JSErrorObject \<lparr>constructor = Ctor ''TypeError'', name = ''TypeError'', message = msg\<rparr>"

text \<open>\<open>Error.prototype.toString\<close>.\<close>

definition error_toString :: "js_error \<Rightarrow> string" where
  "error_toString e =
     (if name e = [] then message e
      else if message e = [] then name e
      else name e @ '': '' @ message e)"

text \<open>
  \<open>String(v)\<close>: the string, or (\<open>Inl\<close>) the \<open>TypeError\<close> thrown for an object that
  cannot be converted to a primitive. A symbol is converted to its descriptive string.
\<close>

fun String_of :: "js_value \<Rightarrow> js_value + string" where
  "String_of JSUndefined = Inr ''undefined''"
| "String_of JSNull = Inr ''null''"
| "String_of (JSOther c s) = Inr s"
| "String_of (JSSymbol d) = Inr (''Symbol('' @ d @ '')'')"
| "String_of JSBare = Inl (new_TypeError ''Cannot convert object to primitive value'')"
| "String_of (JSErrorObject e) = Inr (error_toString e)"

text \<open>
  The conversion inside a template literal, \<open>`${v}`\<close>: as \<open>String(v)\<close>, except that a
  symbol is refused.
\<close>

fun template_string :: "js_value \<Rightarrow> js_value + string" where
  "template_string JSUndefined = String_of JSUndefined"
| "template_string JSNull = String_of JSNull"
| "template_string (JSOther c s) = String_of (JSOther c s)"
| "template_string (JSSymbol d) =
     Inl (new_TypeError ''Cannot convert a Symbol value to a string'')"
| "template_string JSBare = String_of JSBare"
| "template_string (JSErrorObject e) = String_of (JSErrorObject e)"

text \<open>\<open>v instanceof Error\<close>.\<close>

fun is_Error :: "js_value \<Rightarrow> bool" where
  "is_Error (JSErrorObject e) = True"
| "is_Error v = False"

text \<open>\<open>s.includes(t)\<close>: \<open>t\<close> occurs in \<open>s\<close> as a contiguous substring.\<close>

definition str_includes :: "string \<Rightarrow> string \<Rightarrow> bool" where
  "str_includes s t = sublist t s"

section \<open>Exception types (exception-types.ts)\<close>

datatype ExceptionType =
    NULL_POINTER
  | TYPE_ERROR
  | RANGE_ERROR
  | SYNTAX_ERROR
  | REFERENCE_ERROR
  | NETWORK_ERROR
  | DATA_ERROR
  | RESOURCE_ERROR
  | GENERAL_ERROR

section \<open>The two classifiers\<close>

text \<open>
  \<open>ExceptionLogger.determineExceptionType\<close>. The checks on a \<open>TypeError\<close> are nested:
  once the name is \<open>TypeError\<close> none of the later branches is tried.
\<close>

definition determineExceptionType :: "js_error \<Rightarrow> ExceptionType" where
  "determineExceptionType error =
     (if name error = ''TypeError'' then
        (if str_includes (message error) ''null'' \<or> str_includes (message error) ''undefined''
           then NULL_POINTER
         else if str_includes (message error) ''is not a function'' then TYPE_ERROR
         else GENERAL_ERROR)
      else if name error = ''RangeError'' then RANGE_ERROR
      else if name error = ''SyntaxError'' then SYNTAX_ERROR
      else if name error = ''ReferenceError'' then REFERENCE_ERROR
      else if name error = ''AbortError'' then NETWORK_ERROR
      else if str_includes (message error) ''fetch'' \<or> str_includes (message error) ''network''
                \<or> str_includes (message error) ''timeout'' then NETWORK_ERROR
      else if str_includes (message error) ''JSON'' then DATA_ERROR
      else GENERAL_ERROR)"

text \<open>\<open>ExceptionRegistry.mapErrorToExceptionType\<close>: the same chain with one more branch.\<close>

definition mapErrorToExceptionType :: "js_error \<Rightarrow> ExceptionType" where
  "mapErrorToExceptionType error =
     (if name error = ''TypeError'' then
        (if str_includes (message error) ''null'' \<or> str_includes (message error) ''undefined''
           then NULL_POINTER
         else if str_includes (message error) ''is not a function'' then TYPE_ERROR
         else GENERAL_ERROR)
      else if name error = ''RangeError'' then RANGE_ERROR
      else if name error = ''SyntaxError'' then SYNTAX_ERROR
      else if name error = ''ReferenceError'' then REFERENCE_ERROR
      else if name error = ''AbortError'' then NETWORK_ERROR
      else if str_includes (message error) ''fetch'' \<or> str_includes (message error) ''network''
                \<or> str_includes (message error) ''timeout'' then NETWORK_ERROR
      else if str_includes (message error) ''JSON'' then DATA_ERROR
      else if str_includes (message error) ''memory'' \<or> str_includes (message error) ''DOM''
        then RESOURCE_ERROR
      else GENERAL_ERROR)"

section \<open>Request options (safe-fetch.ts)\<close>

datatype conflict_strategy = ServerWins | ClientWins | Timestamp

text \<open>
  \<open>SafeFetchOptions\<close> as a caller passes it: every field may be absent. Of the
  inherited \<open>RequestInit\<close> only \<open>body\<close> is read by the module.
\<close>

record SafeFetchOptions =
  retryCount :: "int option"
  retryDelay :: "int option"
  timeout :: "int option"
  fallbackData :: "json option"
  fallbackUrl :: "string option"
  conflictResolution :: "conflict_strategy option"
  body :: "string option"

text \<open>
  The options after \<open>{ ...SafeFetch.defaultOptions, ...options }\<close>. The static defaults
  always define the three numbers, so they are defined after the merge as well.
\<close>

record MergedOptions =
  m_retryCount :: int
  m_retryDelay :: int
  m_timeout :: int
  m_fallbackData :: "json option"
  m_fallbackUrl :: "string option"
  m_conflictResolution :: "conflict_strategy option"
  m_body :: "string option"

definition defaultOptions :: MergedOptions where
  "defaultOptions =
     \<lparr>m_retryCount = 3, m_retryDelay = 1000, m_timeout = 10000, m_fallbackData = None,
      m_fallbackUrl = None, m_conflictResolution = Some Timestamp, m_body = None\<rparr>"

definition merge :: "MergedOptions \<Rightarrow> SafeFetchOptions \<Rightarrow> MergedOptions" where
  "merge d opts =
     \<lparr>m_retryCount = (case retryCount opts of None \<Rightarrow> m_retryCount d | Some n \<Rightarrow> n),
      m_retryDelay = (case retryDelay opts of None \<Rightarrow> m_retryDelay d | Some n \<Rightarrow> n),
      m_timeout = (case timeout opts of None \<Rightarrow> m_timeout d | Some n \<Rightarrow> n),
      m_fallbackData = (case fallbackData opts of None \<Rightarrow> m_fallbackData d | Some x \<Rightarrow> Some x),
      m_fallbackUrl = (case fallbackUrl opts of None \<Rightarrow> m_fallbackUrl d | Some u \<Rightarrow> Some u),
      m_conflictResolution =
        (case conflictResolution opts of None \<Rightarrow> m_conflictResolution d | Some c \<Rightarrow> Some c),
      m_body = (case body opts of None \<Rightarrow> m_body d | Some b \<Rightarrow> Some b)\<rparr>"

section \<open>The exception log (ExceptionLogger)\<close>

text \<open>How a call ends: it returns, or it throws a value.\<close>

datatype outcome = Returns | Throws js_value

text \<open>
  The third argument of \<open>ExceptionLogger.log\<close>, spread into the entry's context:
  nothing, caller data, the payload of a handler failure
  (\<open>originalError\<close>, \<open>originalContext\<close>, \<open>originalExtraInfo\<close>), or what the request
  module passes (\<open>url\<close>, \<open>attempt\<close>, \<open>options\<close>).
\<close>

datatype extra_info =
    NoExtra
  | Extra json
  | HandlerFailure js_value string extra_info
  | RequestInfo string "nat option" SafeFetchOptions
  | ConflictInfo string MergedOptions

text \<open>
  A log entry. \<open>entry_id\<close> stands for \<open>crypto.randomUUID()\<close>: the k-th identifier drawn
  is represented by k, identifiers being pairwise distinct. \<open>entry_component\<close> is
  \<open>context.component\<close>. The timestamp and the environment snapshot are read by no
  operation here and are left out.
\<close>

record LogEntry =
  entry_id :: nat
  entry_error :: js_error
  entry_type :: ExceptionType
  entry_component :: string
  entry_extra :: extra_info

record ExceptionLogger =
  logEntries :: "LogEntry list"
  maxLogEntries :: nat
  uuids_drawn :: nat

definition initialLogger :: ExceptionLogger where
  "initialLogger = \<lparr>logEntries = [], maxLogEntries = 1000, uuids_drawn = 0\<rparr>"

text \<open>
  The first statement of \<open>ExceptionLogger.log\<close>,
  \<open>if (!(error instanceof Error)) error = new Error(String(error))\<close>: an \<open>Error\<close> is
  taken as it is, another value is wrapped, and \<open>String\<close> may throw.
\<close>

definition as_Error :: "js_value \<Rightarrow> js_value + js_error" where
  "as_Error err =
     (case err of
        JSErrorObject e \<Rightarrow> Inr e
      | _ \<Rightarrow> (case String_of err of Inl t \<Rightarrow> Inl t | Inr s \<Rightarrow> Inr (new_Error s)))"

definition new_entry :: "nat \<Rightarrow> js_error \<Rightarrow> string \<Rightarrow> extra_info \<Rightarrow> LogEntry" where
  "new_entry uuid e ctx extraInfo =
     \<lparr>entry_id = uuid, entry_error = e, entry_type = determineExceptionType e,
      entry_component = ctx, entry_extra = extraInfo\<rparr>"

text \<open>
  \<open>ExceptionLogger.log\<close>: when the conversion of the value throws, the call throws
  before anything is drawn or pushed; otherwise the entry is pushed, and one entry is
  shifted out at the front when the list is longer than the cap. The runtime is taken to
  be a browser page in a secure context: what \<open>log\<close> calls besides
  (\<open>crypto.randomUUID\<close>, \<open>navigator\<close>, the configuration, the console,
  \<open>window.dispatchEvent\<close>) exists there and does not throw.
\<close>

definition log ::
  "js_value \<Rightarrow> string \<Rightarrow> extra_info \<Rightarrow> ExceptionLogger \<Rightarrow> outcome \<times> ExceptionLogger" where
  "log err ctx extraInfo L =
     (case as_Error err of
        Inl t \<Rightarrow> (Throws t, L)
      | Inr e \<Rightarrow>
          (let logEntry = new_entry (uuids_drawn L) e ctx extraInfo;
               pushed = logEntries L @ [logEntry]
           in (Returns,
               L\<lparr>logEntries := (if length pushed > maxLogEntries L then tl pushed else pushed),
                 uuids_drawn := uuids_drawn L + 1\<rparr>)))"

text \<open>A sequence of calls of \<open>log\<close>, oldest first, each made whatever the one before did.\<close>

fun log_all :: "(js_value \<times> string \<times> extra_info) list \<Rightarrow> ExceptionLogger \<Rightarrow> ExceptionLogger" where
  "log_all [] L = L"
| "log_all ((err, ctx, extraInfo) # ws) L = log_all ws (snd (log err ctx extraInfo L))"

text \<open>
  The records that a sequence of calls writes, the first of them under identifier \<open>k\<close>: a
  call whose value cannot be converted writes none.
\<close>

fun written :: "nat \<Rightarrow> (js_value \<times> string \<times> extra_info) list \<Rightarrow> LogEntry list" where
  "written k [] = []"
| "written k ((err, ctx, extraInfo) # ws) =
     (case as_Error err of
        Inl t \<Rightarrow> written k ws
      | Inr e \<Rightarrow> new_entry k e ctx extraInfo # written (Suc k) ws)"

section \<open>The handler registry (ExceptionRegistry)\<close>

text \<open>
  A key of the handler map is a constructor function or an \<open>ExceptionType\<close> value; the
  two kinds of key never coincide.
\<close>

datatype handler_key = ByConstructor ctor | ByExceptionType ExceptionType

text \<open>
  A handler is caller code: it runs on the caller's own state \<open>'s\<close> and either returns
  or throws a value. Handlers that themselves write to the log or change the registry
  are outside this model.
\<close>

type_synonym 's ExceptionHandler = "js_value \<Rightarrow> string \<Rightarrow> extra_info \<Rightarrow> 's \<Rightarrow> outcome \<times> 's"

record 's ExceptionHandlerEntry =
  handler :: "'s ExceptionHandler"
  severity :: string

type_synonym 's handlers = "handler_key \<rightharpoonup> 's ExceptionHandlerEntry"

definition registerHandler ::
  "handler_key \<Rightarrow> 's ExceptionHandler \<Rightarrow> string \<Rightarrow> 's handlers \<Rightarrow> 's handlers" where
  "registerHandler type h sev hs = hs(type \<mapsto> \<lparr>handler = h, severity = sev\<rparr>)"

definition unregisterHandler :: "handler_key \<Rightarrow> 's handlers \<Rightarrow> 's handlers" where
  "unregisterHandler type hs = hs(type := None)"

definition getHandler :: "'s handlers \<Rightarrow> handler_key \<Rightarrow> 's ExceptionHandler option" where
  "getHandler hs type = map_option handler (hs type)"

text \<open>
  \<open>new Error(`Custom handler failed: ${handlerError}`)\<close>: the error object, or
  (\<open>Inl\<close>) what the template literal throws when the value thrown by the handler cannot
  be converted to a string.
\<close>

definition handler_failure :: "js_value \<Rightarrow> js_value + js_error" where
  "handler_failure handlerError =
     (case template_string handlerError of
        Inl t \<Rightarrow> Inl t
      | Inr s \<Rightarrow> Inr (new_Error (''Custom handler failed: '' @ s)))"

text \<open>
  The body of the \<open>catch (handlerError)\<close> that both dispatchers share: the failure report
  is built and logged. Nothing guards it, so what it throws leaves the dispatcher.
\<close>

definition report_handler_failure ::
  "js_value \<Rightarrow> js_value \<Rightarrow> string \<Rightarrow> extra_info \<Rightarrow> ExceptionLogger \<Rightarrow> outcome \<times> ExceptionLogger" where
  "report_handler_failure handlerError err ctx extraInfo L =
     (case handler_failure handlerError of
        Inl t \<Rightarrow> (Throws t, L)
      | Inr failure \<Rightarrow>
          log (JSErrorObject failure) ''handler-failure'' (HandlerFailure err ctx extraInfo) L)"

text \<open>
  \<open>ExceptionRegistry.handleException(error: Error, context, extraInfo)\<close>: the handler
  under the constructor, else the handler under the mapped exception type; a handler
  that throws is reported to the log. The exception itself is not logged here.
\<close>

fun registry_handleException ::
  "'s handlers \<Rightarrow> js_error \<Rightarrow> string \<Rightarrow> extra_info \<Rightarrow> 's \<times> ExceptionLogger
     \<Rightarrow> outcome \<times> 's \<times> ExceptionLogger" where
  "registry_handleException hs err ctx extraInfo (s, L) =
     (let h0 = getHandler hs (ByConstructor (constructor err));
          h1 = (case h0 of
                  None \<Rightarrow> getHandler hs (ByExceptionType (mapErrorToExceptionType err))
                | Some h \<Rightarrow> Some h)
      in case h1 of
           None \<Rightarrow> (Returns, s, L)
         | Some h \<Rightarrow>
             (case h (JSErrorObject err) ctx extraInfo s of
                (Returns, s') \<Rightarrow> (Returns, s', L)
              | (Throws handlerError, s') \<Rightarrow>
                  (case report_handler_failure handlerError (JSErrorObject err) ctx extraInfo L of
                     (out, L') \<Rightarrow> (out, s', L'))))"

section \<open>The interceptor (ExceptionInterceptor)\<close>

text \<open>
  \<open>error.constructor\<close>: reading a property of \<open>undefined\<close> or \<open>null\<close> throws a
  \<open>TypeError\<close>; an object without a prototype has no such property, and the value read
  is \<open>undefined\<close> (\<open>None\<close>).
\<close>

fun constructor_of :: "js_value \<Rightarrow> js_value + ctor option" where
  "constructor_of JSUndefined =
     Inl (new_TypeError ''Cannot read properties of undefined (reading 'constructor')'')"
| "constructor_of JSNull =
     Inl (new_TypeError ''Cannot read properties of null (reading 'constructor')'')"
| "constructor_of (JSOther c s) = Inr (Some c)"
| "constructor_of (JSSymbol d) = Inr (Some (Ctor ''Symbol''))"
| "constructor_of JSBare = Inr None"
| "constructor_of (JSErrorObject e) = Inr (Some (constructor e))"

text \<open>
  \<open>ExceptionRegistry.getHandler(error.constructor)\<close> as the interceptor calls it: no
  handler is registered under \<open>undefined\<close>.
\<close>

definition getHandler_for :: "'s handlers \<Rightarrow> ctor option \<Rightarrow> 's ExceptionHandler option" where
  "getHandler_for hs c = (case c of None \<Rightarrow> None | Some k \<Rightarrow> getHandler hs (ByConstructor k))"

text \<open>
  \<open>ExceptionInterceptor.handleException(error: any, context, extraInfo)\<close>: only the
  handler under the constructor is looked up; when it returns, the method returns; when
  it throws, the failure is reported and the exception is logged; when there is none,
  the exception is logged. The two calls of \<open>log\<close> are not guarded.
\<close>

fun interceptor_handleException ::
  "'s handlers \<Rightarrow> js_value \<Rightarrow> string \<Rightarrow> extra_info \<Rightarrow> 's \<times> ExceptionLogger
     \<Rightarrow> outcome \<times> 's \<times> ExceptionLogger" where
  "interceptor_handleException hs err ctx extraInfo (s, L) =
     (case constructor_of err of
        Inl t \<Rightarrow> (Throws t, s, L)
      | Inr c \<Rightarrow>
          (case getHandler_for hs c of
             None \<Rightarrow> (case log err ctx extraInfo L of (out, L') \<Rightarrow> (out, s, L'))
           | Some h \<Rightarrow>
               (case h err ctx extraInfo s of
                  (Returns, s') \<Rightarrow> (Returns, s', L)
                | (Throws handlerError, s') \<Rightarrow>
                    (case report_handler_failure handlerError err ctx extraInfo L of
                       (Throws t, L1) \<Rightarrow> (Throws t, s', L1)
                     | (Returns, L1) \<Rightarrow>
                         (case log err ctx extraInfo L1 of (out, L2) \<Rightarrow> (out, s', L2))))))"

section \<open>The resilient request (SafeFetch)\<close>

text \<open>Decimal form of a number, as a template literal prints it.\<close>

fun string_of_nat :: "nat \<Rightarrow> string" where
  "string_of_nat n =
     (if n < 10 then [''0123456789'' ! n]
      else string_of_nat (n div 10) @ [''0123456789'' ! (n mod 10)])"

declare string_of_nat.simps [simp del]

definition string_of_int :: "int \<Rightarrow> string" where
  "string_of_int i = (if i < 0 then ''-'' @ string_of_nat (nat (- i)) else string_of_nat (nat i))"

text \<open>
  What the global \<open>fetch\<close> delivers: a rejection (network failure, abort on timeout; a
  replaced \<open>fetch\<close> may reject with any value) or a response, whose \<open>json()\<close> in turn
  yields data or rejects. \<open>ok\<close> is the Fetch standard's: a status from 200 to 299.
\<close>

record Response =
  resp_status :: int
  resp_headers :: "(string \<times> string) list"
  resp_json :: "js_value + json"

definition ok :: "Response \<Rightarrow> bool" where
  "ok r = (200 \<le> resp_status r \<and> resp_status r \<le> 299)"

datatype fetch_outcome = Rejects js_value | Responds Response

text \<open>
  The runtime the module runs on: the transport (the outcome of the n-th call of the
  global \<open>fetch\<close>, given url and body), \<open>JSON.parse\<close> (which throws a \<open>SyntaxError\<close>),
  \<open>JSON.stringify\<close>, and \<open>new Date(v)\<close>: its time value, \<open>None\<close> for an invalid date,
  or the \<open>TypeError\<close> thrown when \<open>v\<close> cannot be converted to a primitive.
\<close>

record platform =
  transport :: "nat \<Rightarrow> string \<Rightarrow> string option \<Rightarrow> fetch_outcome"
  JSON_parse :: "string \<Rightarrow> js_error + json"
  JSON_stringify :: "json \<Rightarrow> string"
  Date_value :: "json \<Rightarrow> js_error + int option"

text \<open>
  What a call of \<open>SafeFetch.fetch\<close> does to the world: the calls of the global \<open>fetch\<close>
  it issues (tagged with the place that issues them) and the delays it awaits, in
  order, and the writes to the exception log.
\<close>

datatype call_site = Primary | ConflictRetry | Fallback

datatype event = Call call_site string "string option" | Delay int

fun is_call :: "event \<Rightarrow> bool" where
  "is_call (Call site url b) = True"
| "is_call (Delay ms) = False"

fun is_primary_call :: "event \<Rightarrow> bool" where
  "is_primary_call (Call site url b) = (site = Primary)"
| "is_primary_call (Delay ms) = False"

record world =
  trace :: "event list"
  logger :: ExceptionLogger

definition calls_made :: "world \<Rightarrow> nat" where
  "calls_made w = length (filter is_call (trace w))"

definition global_fetch ::
  "platform \<Rightarrow> call_site \<Rightarrow> string \<Rightarrow> string option \<Rightarrow> world \<Rightarrow> fetch_outcome \<times> world" where
  "global_fetch P site url b w =
     (transport P (calls_made w) url b, w\<lparr>trace := trace w @ [Call site url b]\<rparr>)"

definition delay :: "int \<Rightarrow> world \<Rightarrow> world" where
  "delay ms w = w\<lparr>trace := trace w @ [Delay ms]\<rparr>"

text \<open>\<open>ExceptionLogger.log\<close> called from the request module.\<close>

definition log_world :: "js_value \<Rightarrow> string \<Rightarrow> extra_info \<Rightarrow> world \<Rightarrow> outcome \<times> world" where
  "log_world v ctx extraInfo w =
     (case log v ctx extraInfo (logger w) of (out, L) \<Rightarrow> (out, w\<lparr>logger := L\<rparr>))"

text \<open>
  The result of \<open>fetch\<close>. A field that holds \<open>undefined\<close> is absent (\<open>None\<close>); \<open>error\<close>
  holds what was caught, which need not be an \<open>Error\<close>.
\<close>

record SafeFetchResponse =
  data :: "json option"
  error :: "js_value option"
  status :: "int option"
  headers :: "(string \<times> string) list option"

text \<open>A variable that is assigned \<open>v\<close>: assigning \<open>undefined\<close> leaves it undefined.\<close>

definition defined :: "js_value \<Rightarrow> js_value option" where
  "defined v = (if v = JSUndefined then None else Some v)"

text \<open>
  The \<open>timestamp\<close> branch of \<open>handleConflict\<close>: the client's data wins when all four of
  client data, server data and their \<open>updatedAt\<close> are truthy and the client's date is
  the greater; a comparison with an invalid date is false. The client's date is
  constructed first, and either construction may throw.
\<close>

definition updatedAt :: "json \<Rightarrow> json option" where
  "updatedAt v = get_prop v ''updatedAt''"

definition truthy_opt :: "json option \<Rightarrow> bool" where
  "truthy_opt v = (case v of None \<Rightarrow> False | Some j \<Rightarrow> truthy j)"

definition date_gt :: "platform \<Rightarrow> json \<Rightarrow> json \<Rightarrow> js_error + bool" where
  "date_gt P a b =
     (case Date_value P a of
        Inl t \<Rightarrow> Inl t
      | Inr x \<Rightarrow>
          (case Date_value P b of
             Inl t \<Rightarrow> Inl t
           | Inr y \<Rightarrow>
               Inr (case (x, y) of
                      (Some x', Some y') \<Rightarrow> x' > y'
                    | _ \<Rightarrow> False)))"

definition resolve_timestamp :: "platform \<Rightarrow> json option \<Rightarrow> json \<Rightarrow> js_error + json" where
  "resolve_timestamp P clientData serverData =
     (case clientData of
        None \<Rightarrow> Inr serverData
      | Some c \<Rightarrow>
          (if truthy c \<and> truthy serverData \<and> truthy_opt (updatedAt c)
                \<and> truthy_opt (updatedAt serverData)
           then (case date_gt P (the (updatedAt c)) (the (updatedAt serverData)) of
                   Inl t \<Rightarrow> Inl t
                 | Inr newer \<Rightarrow> Inr (if newer then c else serverData))
           else Inr serverData))"

text \<open>\<open>options.body ? JSON.parse(options.body.toString()) : undefined\<close>.\<close>

definition parse_client_body :: "platform \<Rightarrow> MergedOptions \<Rightarrow> js_error + json option" where
  "parse_client_body P m =
     (case m_body m of
        None \<Rightarrow> Inr None
      | Some b \<Rightarrow>
          (if b = [] then Inr None
           else (case JSON_parse P b of Inl e \<Rightarrow> Inl e | Inr j \<Rightarrow> Inr (Some j))))"

text \<open>
  \<open>SafeFetch.handleConflict\<close>. \<open>Inr None\<close> is the result \<open>undefined\<close>, \<open>Inl\<close> a
  rejection of the call. What the \<open>try\<close> catches is logged and gives \<open>undefined\<close>,
  unless \<open>log\<close> throws in the \<open>catch\<close>; the promise of \<open>clientResponse.json()\<close> is
  returned without being awaited, so its rejection passes the \<open>catch\<close> and rejects the
  call.
\<close>

definition conflict_catch :: "string \<Rightarrow> MergedOptions \<Rightarrow> js_value \<Rightarrow> world
    \<Rightarrow> (js_value + json option) \<times> world" where
  "conflict_catch url m v w =
     (case log_world v ''safe-fetch-conflict'' (ConflictInfo url m) w of
        (Returns, w') \<Rightarrow> (Inr None, w')
      | (Throws t, w') \<Rightarrow> (Inl t, w'))"

definition handleConflict ::
  "platform \<Rightarrow> string \<Rightarrow> MergedOptions \<Rightarrow> Response \<Rightarrow> world
     \<Rightarrow> (js_value + json option) \<times> world" where
  "handleConflict P url m response w =
     (case resp_json response of
        Inl v \<Rightarrow> conflict_catch url m v w
      | Inr serverData \<Rightarrow>
          (case parse_client_body P m of
             Inl e \<Rightarrow> conflict_catch url m (JSErrorObject e) w
           | Inr clientData \<Rightarrow>
               (case m_conflictResolution m of
                  Some ServerWins \<Rightarrow> (Inr (Some serverData), w)
                | Some ClientWins \<Rightarrow>
                    (case global_fetch P ConflictRetry url
                            (map_option (JSON_stringify P) clientData) w of
                       (Rejects v, w1) \<Rightarrow> conflict_catch url m v w1
                     | (Responds clientResponse, w1) \<Rightarrow>
                         (if ok clientResponse
                          then (case resp_json clientResponse of
                                  Inl v \<Rightarrow> (Inl v, w1)
                                | Inr d \<Rightarrow> (Inr (Some d), w1))
                          else (Inr None, w1)))
                | Some Timestamp \<Rightarrow>
                    (case resolve_timestamp P clientData serverData of
                       Inl e \<Rightarrow> conflict_catch url m (JSErrorObject e) w
                     | Inr resolved \<Rightarrow> (Inr (Some resolved), w))
                | None \<Rightarrow> (Inr (Some serverData), w))))"

text \<open>The local variables of \<open>fetch\<close> that survive an attempt.\<close>

record locals =
  lastError :: "js_value option"
  lastStatus :: "int option"
  lastHeaders :: "(string \<times> string) list option"

text \<open>
  How a block of \<open>fetch\<close> ends: with a \<open>return\<close> from \<open>fetch\<close>, with a throw, or by
  running to its end.
\<close>

datatype completion = Returned SafeFetchResponse | Threw js_value | Completed

definition http_error :: "int \<Rightarrow> js_error" where
  "http_error st = new_Error (''HTTP error! status: '' @ string_of_int st)"

text \<open>
  The \<open>try\<close> block of one round of the loop: it returns from \<open>fetch\<close>, throws, or
  runs to its end, where \<open>lastError\<close> is the HTTP error. The status and headers of a
  response are recorded before its body is read.
\<close>

definition try_block ::
  "platform \<Rightarrow> string \<Rightarrow> MergedOptions \<Rightarrow> locals \<Rightarrow> world \<Rightarrow> completion \<times> locals \<times> world" where
  "try_block P url m l w =
     (case global_fetch P Primary url (m_body m) w of
        (Rejects v, w1) \<Rightarrow> (Threw v, l, w1)
      | (Responds response, w1) \<Rightarrow>
          (let l1 = l\<lparr>lastStatus := Some (resp_status response),
                      lastHeaders := Some (resp_headers response)\<rparr>
           in if ok response then
                (case resp_json response of
                   Inl v \<Rightarrow> (Threw v, l1, w1)
                 | Inr d \<Rightarrow>
                     (Returned \<lparr>data = Some d, error = None,
                                status = Some (resp_status response),
                                headers = Some (resp_headers response)\<rparr>, l1, w1))
              else if resp_status response = 409 \<and> m_conflictResolution m \<noteq> None then
                (case handleConflict P url m response w1 of
                   (Inl v, w2) \<Rightarrow> (Threw v, l1, w2)
                 | (Inr (Some resolvedData), w2) \<Rightarrow>
                     (Returned \<lparr>data = Some resolvedData, error = None, status = Some 200,
                                headers = Some (resp_headers response)\<rparr>, l1, w2)
                 | (Inr None, w2) \<Rightarrow>
                     (Completed,
                      l1\<lparr>lastError := Some (JSErrorObject (http_error (resp_status response)))\<rparr>,
                      w2))
              else (Completed,
                    l1\<lparr>lastError := Some (JSErrorObject (http_error (resp_status response)))\<rparr>,
                    w1)))"

text \<open>
  The \<open>catch\<close> of the loop: the thrown value becomes \<open>lastError\<close> and is logged. The
  call of \<open>log\<close> is not guarded: what it throws leaves \<open>fetch\<close>.
\<close>

definition catch_block ::
  "string \<Rightarrow> SafeFetchOptions \<Rightarrow> nat \<Rightarrow> js_value \<Rightarrow> locals \<times> world
     \<Rightarrow> outcome \<times> locals \<times> world" where
  "catch_block url opts attempt v lw =
     (case log_world v ''safe-fetch'' (RequestInfo url (Some attempt) opts) (snd lw) of
        (out, w') \<Rightarrow> (out, (fst lw)\<lparr>lastError := defined v\<rparr>, w'))"

text \<open>
  The \<open>while (attempt <= retryCount)\<close> loop. \<open>Returned r\<close> is a \<open>return r\<close> from inside
  the loop, \<open>Threw t\<close> a throw out of its \<open>catch\<close>, \<open>Completed\<close> the exit through the
  loop condition.
\<close>

function fetch_loop ::
  "platform \<Rightarrow> string \<Rightarrow> SafeFetchOptions \<Rightarrow> MergedOptions \<Rightarrow> nat \<Rightarrow> locals \<Rightarrow> world
     \<Rightarrow> completion \<times> locals \<times> world" where
  "fetch_loop P url opts m attempt l w =
     (if int attempt \<le> m_retryCount m then
        (case try_block P url m l w of
           (Returned r, l1, w1) \<Rightarrow> (Returned r, l1, w1)
         | (Threw v, l1, w1) \<Rightarrow>
             (case catch_block url opts attempt v (l1, w1) of
                (Throws t, l2, w2) \<Rightarrow> (Threw t, l2, w2)
              | (Returns, l2, w2) \<Rightarrow>
                  (let w3 = (if int (attempt + 1) \<le> m_retryCount m
                             then delay (m_retryDelay m * 2 ^ (attempt + 1 - 1)) w2 else w2)
                   in fetch_loop P url opts m (attempt + 1) l2 w3))
         | (Completed, l1, w1) \<Rightarrow>
             (let w3 = (if int (attempt + 1) \<le> m_retryCount m
                        then delay (m_retryDelay m * 2 ^ (attempt + 1 - 1)) w1 else w1)
              in fetch_loop P url opts m (attempt + 1) l1 w3))
      else (Completed, l, w))"
  by pat_completeness auto
termination
  by (relation "measure (\<lambda>(P, url, opts, m, attempt, l, w). nat (m_retryCount m + 1 - int attempt))")
     auto

declare fetch_loop.simps [simp del]

text \<open>
  The one call of the fallback url, made when \<open>fallbackUrl\<close> is truthy. What is caught
  is logged, again without a guard.
\<close>

definition fallback_catch :: "string \<Rightarrow> SafeFetchOptions \<Rightarrow> js_value \<Rightarrow> world
    \<Rightarrow> completion \<times> world" where
  "fallback_catch fu opts v w =
     (case log_world v ''safe-fetch-fallback'' (RequestInfo fu None opts) w of
        (Returns, w') \<Rightarrow> (Completed, w')
      | (Throws t, w') \<Rightarrow> (Threw t, w'))"

definition try_fallback ::
  "platform \<Rightarrow> SafeFetchOptions \<Rightarrow> MergedOptions \<Rightarrow> world \<Rightarrow> completion \<times> world" where
  "try_fallback P opts m w =
     (case m_fallbackUrl m of
        None \<Rightarrow> (Completed, w)
      | Some fu \<Rightarrow>
          (if fu = [] then (Completed, w)
           else
             (case global_fetch P Fallback fu (m_body m) w of
                (Rejects v, w1) \<Rightarrow> fallback_catch fu opts v w1
              | (Responds response, w1) \<Rightarrow>
                  (if ok response then
                     (case resp_json response of
                        Inl v \<Rightarrow> fallback_catch fu opts v w1
                      | Inr d \<Rightarrow>
                          (Returned \<lparr>data = Some d, error = None,
                                     status = Some (resp_status response),
                                     headers = Some (resp_headers response)\<rparr>, w1))
                   else (Completed, w1)))))"

text \<open>
  \<open>SafeFetch.fetch\<close>, an async function: its promise is resolved with a
  \<open>SafeFetchResponse\<close> or rejected with what was thrown. \<open>d\<close> is the current value of
  the static \<open>defaultOptions\<close>.
\<close>

datatype 'a promise = Resolved 'a | Rejected js_value

definition fetch ::
  "platform \<Rightarrow> MergedOptions \<Rightarrow> string \<Rightarrow> SafeFetchOptions \<Rightarrow> world
     \<Rightarrow> SafeFetchResponse promise \<times> world" where
  "fetch P d url opts w =
     (let m = merge d opts in
      case fetch_loop P url opts m 0
             \<lparr>lastError = None, lastStatus = None, lastHeaders = None\<rparr> w of
        (Returned r, l, w1) \<Rightarrow> (Resolved r, w1)
      | (Threw t, l, w1) \<Rightarrow> (Rejected t, w1)
      | (Completed, l, w1) \<Rightarrow>
          (case try_fallback P opts m w1 of
             (Returned r, w2) \<Rightarrow> (Resolved r, w2)
           | (Threw t, w2) \<Rightarrow> (Rejected t, w2)
           | (Completed, w2) \<Rightarrow>
               (case m_fallbackData m of
                  Some fd \<Rightarrow>
                    (Resolved \<lparr>data = Some fd, error = lastError l, status = lastStatus l,
                               headers = lastHeaders l\<rparr>, w2)
                | None \<Rightarrow>
                    (Resolved \<lparr>data = None, error = lastError l, status = lastStatus l,
                               headers = lastHeaders l\<rparr>, w2))))"

section \<open>Notions used in the statements\<close>

text \<open>
  The lookup that the dispatch algorithm prescribes: the handler under the exception's
  constructor, and only when there is none the handler under its exception type.
\<close>

definition dispatch_lookup :: "'s handlers \<Rightarrow> js_error \<Rightarrow> 's ExceptionHandler option" where
  "dispatch_lookup hs e =
     (case getHandler hs (ByConstructor (constructor e)) of
        Some h \<Rightarrow> Some h
      | None \<Rightarrow> getHandler hs (ByExceptionType (mapErrorToExceptionType e)))"

text \<open>
  The classification rules as a flat list, each rule on its own: an exception is matched
  by one of the rules 1 to 8, and it carries the vocabulary of rule 9.
\<close>

definition spec_rules_1_to_8 :: "js_error \<Rightarrow> bool" where
  "spec_rules_1_to_8 e =
     ((name e = ''TypeError''
         \<and> (str_includes (message e) ''null'' \<or> str_includes (message e) ''undefined''))
      \<or> (name e = ''TypeError'' \<and> str_includes (message e) ''is not a function'')
      \<or> name e = ''RangeError''
      \<or> name e = ''SyntaxError''
      \<or> name e = ''ReferenceError''
      \<or> name e = ''AbortError''
      \<or> (str_includes (message e) ''fetch'' \<or> str_includes (message e) ''network''
            \<or> str_includes (message e) ''timeout'')
      \<or> str_includes (message e) ''JSON'')"

definition spec_rule_9 :: "js_error \<Rightarrow> bool" where
  "spec_rule_9 e = (str_includes (message e) ''memory'' \<or> str_includes (message e) ''DOM'')"

text \<open>
  The log after \<open>r\<close> has been written to it: \<open>r\<close> is the newest record, the oldest one
  is gone when the log was at its cap, and one more identifier has been drawn.
\<close>

definition appended :: "LogEntry \<Rightarrow> ExceptionLogger \<Rightarrow> ExceptionLogger" where
  "appended r L =
     \<lparr>logEntries = (if length (logEntries L) < maxLogEntries L then logEntries L @ [r]
                     else tl (logEntries L @ [r])),
      maxLogEntries = maxLogEntries L,
      uuids_drawn = Suc (uuids_drawn L)\<rparr>"

text \<open>
  An attempt fails when the transport rejects with an \<open>Error\<close>, when the response is a
  success whose body cannot be read (\<open>json()\<close> rejects with an \<open>Error\<close>), or when it
  carries an error status that conflict resolution does not resolve: any status but 409,
  or 409 with no strategy set, or 409 with a body that cannot be read. A transport
  always fails when every call of it does, whatever the url and the body.
\<close>

definition unreadable :: "Response \<Rightarrow> bool" where
  "unreadable r = (case resp_json r of Inl v \<Rightarrow> is_Error v | Inr d \<Rightarrow> False)"

definition attempt_fails :: "MergedOptions \<Rightarrow> fetch_outcome \<Rightarrow> bool" where
  "attempt_fails m out =
     (case out of
        Rejects v \<Rightarrow> is_Error v
      | Responds r \<Rightarrow>
          (if ok r then unreadable r
           else (resp_status r \<noteq> 409 \<or> m_conflictResolution m = None \<or> unreadable r)))"

definition always_fails :: "platform \<Rightarrow> MergedOptions \<Rightarrow> bool" where
  "always_fails P m = (\<forall>n u b. attempt_fails m (transport P n u b))"

text \<open>The failure that an attempt with this outcome records, if it is one.\<close>

definition failure_of :: "fetch_outcome \<Rightarrow> js_value option" where
  "failure_of out =
     (case out of
        Rejects v \<Rightarrow> defined v
      | Responds r \<Rightarrow>
          (if ok r then (case resp_json r of Inl v \<Rightarrow> defined v | Inr d \<Rightarrow> None)
           else Some (JSErrorObject (http_error (resp_status r)))))"

definition outcome_status :: "fetch_outcome \<Rightarrow> int option" where
  "outcome_status out = (case out of Rejects v \<Rightarrow> None | Responds r \<Rightarrow> Some (resp_status r))"

text \<open>The most recent response among the outcomes of successive attempts, oldest first.\<close>

fun last_response :: "fetch_outcome list \<Rightarrow> Response option" where
  "last_response [] = None"
| "last_response (out # outs) =
     (case last_response outs of
        Some r \<Rightarrow> Some r
      | None \<Rightarrow> (case out of Responds r \<Rightarrow> Some r | Rejects v \<Rightarrow> None))"

text \<open>The outcomes of \<open>n\<close> successive calls for the same url and body, from call \<open>first\<close> on.\<close>

definition primary_outcomes ::
  "platform \<Rightarrow> string \<Rightarrow> string option \<Rightarrow> nat \<Rightarrow> nat \<Rightarrow> fetch_outcome list" where
  "primary_outcomes P url b first n = map (\<lambda>k. transport P (first + k) url b) [0..<n]"

text \<open>
  The schedule of a request that is retried \<open>retries\<close> times: the first call, then for
  \<open>k = 1, ..., retries\<close> a delay of \<open>rd * 2 ^ (k - 1)\<close> followed by the k-th retry.
\<close>

definition backoff_schedule :: "string \<Rightarrow> string option \<Rightarrow> int \<Rightarrow> nat \<Rightarrow> event list" where
  "backoff_schedule url b rd retries =
     Call Primary url b #
     concat (map (\<lambda>k. [Delay (rd * 2 ^ (k - 1)), Call Primary url b]) [1..<Suc retries])"

definition fallback_events :: "MergedOptions \<Rightarrow> event list" where
  "fallback_events m =
     (case m_fallbackUrl m of
        None \<Rightarrow> []
      | Some fu \<Rightarrow> (if fu = [] then [] else [Call Fallback fu (m_body m)]))"

text \<open>
  What a failing round of the loop leaves in the local variables, and what the events of
  the remaining rounds are, seen from round \<open>a\<close> with \<open>n\<close> rounds to go.
\<close>

definition record_failure :: "fetch_outcome \<Rightarrow> locals \<Rightarrow> locals" where
  "record_failure out l =
     (case out of
        Rejects v \<Rightarrow> l\<lparr>lastError := defined v\<rparr>
      | Responds r \<Rightarrow> l\<lparr>lastStatus := Some (resp_status r), lastHeaders := Some (resp_headers r),
                          lastError := failure_of out\<rparr>)"

fun record_failures :: "fetch_outcome list \<Rightarrow> locals \<Rightarrow> locals" where
  "record_failures [] l = l"
| "record_failures (out # outs) l = record_failures outs (record_failure out l)"

fun loop_trace :: "string \<Rightarrow> string option \<Rightarrow> int \<Rightarrow> nat \<Rightarrow> nat \<Rightarrow> event list" where
  "loop_trace url b rd a 0 = []"
| "loop_trace url b rd a (Suc n) =
     Call Primary url b # (if n = 0 then [] else [Delay (rd * 2 ^ a)])
       @ loop_trace url b rd (Suc a) n"

definition no_locals :: locals where
  "no_locals = \<lparr>lastError = None, lastStatus = None, lastHeaders = None\<rparr>"

text \<open>
  Every value that the transport rejects with, and every value that the \<open>json()\<close> of one
  of its responses rejects with, is an \<open>Error\<close>, as the Fetch standard has it.
\<close>

definition rejection_is_Error :: "fetch_outcome \<Rightarrow> bool" where
  "rejection_is_Error out =
     (case out of
        Rejects v \<Rightarrow> is_Error v
      | Responds r \<Rightarrow> (case resp_json r of Inl v \<Rightarrow> is_Error v | Inr d \<Rightarrow> True))"

definition rejects_with_Errors :: "platform \<Rightarrow> bool" where
  "rejects_with_Errors P = (\<forall>n u b. rejection_is_Error (transport P n u b))"

text \<open>
  The comparison of the two \<open>updatedAt\<close> fields: both are present, both give a valid
  date, and the client's is the later one. The truthiness test that guards it. And the
  error thrown when the two dates are constructed, the client's first.
\<close>

definition client_is_newer :: "platform \<Rightarrow> json \<Rightarrow> json \<Rightarrow> bool" where
  "client_is_newer P c s =
     (case (updatedAt c, updatedAt s) of
        (Some T2, Some T1) \<Rightarrow>
          (case (Date_value P T2, Date_value P T1) of
             (Inr (Some t2), Inr (Some t1)) \<Rightarrow> t1 < t2
           | _ \<Rightarrow> False)
      | _ \<Rightarrow> False)"

definition all_truthy :: "json \<Rightarrow> json \<Rightarrow> bool" where
  "all_truthy c s =
     (truthy c \<and> truthy s \<and> truthy_opt (updatedAt c) \<and> truthy_opt (updatedAt s))"

definition date_error :: "platform \<Rightarrow> json \<Rightarrow> json \<Rightarrow> js_error option" where
  "date_error P c s =
     (case (updatedAt c, updatedAt s) of
        (Some T2, Some T1) \<Rightarrow>
          (case Date_value P T2 of
             Inl t \<Rightarrow> Some t
           | Inr t2 \<Rightarrow> (case Date_value P T1 of Inl t \<Rightarrow> Some t | Inr t1 \<Rightarrow> None))
      | _ \<Rightarrow> None)"

text \<open>
  The world after the request module has logged the error \<open>e\<close> in the given context, and
  the next delay of the loop after round \<open>a\<close>, if another round follows.
\<close>

definition logged :: "js_error \<Rightarrow> string \<Rightarrow> extra_info \<Rightarrow> world \<Rightarrow> world" where
  "logged e ctx x w =
     w\<lparr>logger := appended \<lparr>entry_id = uuids_drawn (logger w), entry_error = e,
                            entry_type = determineExceptionType e, entry_component = ctx,
                            entry_extra = x\<rparr> (logger w)\<rparr>"

definition backoff :: "MergedOptions \<Rightarrow> nat \<Rightarrow> world \<Rightarrow> world" where
  "backoff m a w =
     (if int (Suc a) \<le> m_retryCount m then w\<lparr>trace := trace w @ [Delay (m_retryDelay m * 2 ^ a)]\<rparr>
      else w)"

section \<open>Sample inputs\<close>

definition null_read :: js_error where
  "null_read = \<lparr>constructor = Ctor ''TypeError'', name = ''TypeError'',
                  message = ''Cannot read property of null''\<rparr>"

definition null_call :: js_error where
  "null_call = \<lparr>constructor = Ctor ''TypeError'', name = ''TypeError'',
                  message = ''null is not a function; fetch JSON memory''\<rparr>"

definition memory_type_error :: js_error where
  "memory_type_error = \<lparr>constructor = Ctor ''TypeError'', name = ''TypeError'',
                          message = ''out of memory''\<rparr>"

definition memory_error :: js_error where
  "memory_error = \<lparr>constructor = Ctor ''Error'', name = ''Error'',
                     message = ''out of memory''\<rparr>"

text \<open>
  Handlers over a counter of their own runs: one returns, one throws a string, one
  throws a symbol.
\<close>

definition counting_handler :: "nat ExceptionHandler" where
  "counting_handler err ctx extraInfo s = (Returns, Suc s)"

definition failing_handler :: "nat ExceptionHandler" where
  "failing_handler err ctx extraInfo s = (Throws (JSOther (Ctor ''String'') ''boom''), Suc s)"

definition symbol_handler :: "nat ExceptionHandler" where
  "symbol_handler err ctx extraInfo s = (Throws (JSSymbol ''boom''), Suc s)"

definition kind_handlers :: "nat handlers" where
  "kind_handlers =
     registerHandler (ByExceptionType NULL_POINTER) counting_handler ''medium'' Map.empty"

definition type_handlers :: "nat handlers" where
  "type_handlers =
     registerHandler (ByConstructor (Ctor ''TypeError'')) counting_handler ''medium'' Map.empty"

definition failing_handlers :: "nat handlers" where
  "failing_handlers =
     registerHandler (ByConstructor (Ctor ''TypeError'')) failing_handler ''medium'' Map.empty"

definition symbol_handlers :: "nat handlers" where
  "symbol_handlers =
     registerHandler (ByConstructor (Ctor ''TypeError'')) symbol_handler ''medium'' Map.empty"

definition no_handlers :: "nat handlers" where
  "no_handlers = Map.empty"

definition test_extra :: extra_info where
  "test_extra = Extra (JObj [(''extra'', JStr ''info'')])"

definition many_writes :: "(js_value \<times> string \<times> extra_info) list" where
  "many_writes = replicate 1001 (JSErrorObject null_read, ''test'', NoExtra)"

text \<open>
  Sample runtimes. Their requests carry no body, \<open>client_body\<close> or \<open>broken_body\<close>;
  \<open>sample_parse\<close> is \<open>JSON.parse\<close> on these. \<open>epoch_ms\<close> is \<open>new Date(v)\<close> on the
  timestamps of the samples: a number is a time value when it is in range, and an object
  with a property \<open>toString\<close> of its own (which, in parsed JSON, is not callable) cannot
  be converted to a primitive; any other object is an invalid date.
\<close>

definition network_error :: js_error where
  "network_error = \<lparr>constructor = Ctor ''Error'', name = ''Error'', message = ''Network error''\<rparr>"

definition syntax_error :: js_error where
  "syntax_error = \<lparr>constructor = Ctor ''SyntaxError'', name = ''SyntaxError'',
                     message = ''Unexpected token''\<rparr>"

definition primitive_error :: js_error where
  "primitive_error = \<lparr>constructor = Ctor ''TypeError'', name = ''TypeError'',
                        message = ''Cannot convert object to primitive value''\<rparr>"

definition epoch_ms :: "json \<Rightarrow> js_error + int option" where
  "epoch_ms v =
     (case v of
        JNum n \<Rightarrow> Inr (if - 8640000000000000 \<le> n \<and> n \<le> 8640000000000000 then Some n else None)
      | JObj kvs \<Rightarrow> (if map_of kvs ''toString'' \<noteq> None then Inl primitive_error else Inr None)
      | _ \<Rightarrow> Inr None)"

definition client_body :: string where
  \<open>client_body = ''{"updatedAt":2000}''\<close>

definition broken_body :: string where
  \<open>broken_body = ''{"updatedAt":''\<close>

definition client_data :: json where
  "client_data = JObj [(''updatedAt'', JNum 2000)]"

definition server_data :: json where
  "server_data = JObj [(''updatedAt'', JNum 1000)]"

definition epoch_data :: json where
  "epoch_data = JObj [(''updatedAt'', JNum 0)]"

definition odd_data :: json where
  "odd_data = JObj [(''updatedAt'', JObj [(''toString'', JNum 1)])]"

definition sample_parse :: "string \<Rightarrow> js_error + json" where
  "sample_parse s = (if s = client_body then Inr client_data else Inl syntax_error)"

definition sample_stringify :: "json \<Rightarrow> string" where
  "sample_stringify j = (if j = client_data then client_body else [])"

definition test_payload :: json where
  "test_payload = JObj [(''data'', JStr ''test'')]"

definition fallback_payload :: json where
  "fallback_payload = JObj [(''data'', JStr ''fallback'')]"

definition conflict_response :: Response where
  "conflict_response = \<lparr>resp_status = 409, resp_headers = [], resp_json = Inr server_data\<rparr>"

definition odd_conflict_response :: Response where
  "odd_conflict_response = \<lparr>resp_status = 409, resp_headers = [], resp_json = Inr odd_data\<rparr>"

definition garbled_conflict_response :: Response where
  "garbled_conflict_response =
     \<lparr>resp_status = 409, resp_headers = [], resp_json = Inl (JSErrorObject syntax_error)\<rparr>"

text \<open>
  A transport that rejects every call with an \<open>Error\<close>, and one that rejects every call
  with an object that has no prototype.
\<close>

definition rejecting_platform :: platform where
  "rejecting_platform =
     \<lparr>transport = (\<lambda>n u b. Rejects (JSErrorObject network_error)), JSON_parse = sample_parse,
      JSON_stringify = sample_stringify, Date_value = epoch_ms\<rparr>"


text \<open>A transport that answers the first call with status 500 and rejects the later ones.\<close>

definition flaky_platform :: platform where
  "flaky_platform =
     \<lparr>transport = (\<lambda>n u b. if n = 0
          then Responds \<lparr>resp_status = 500, resp_headers = [(''x-attempt'', ''first'')],
                         resp_json = Inr JNull\<rparr>
          else Rejects (JSErrorObject network_error)),
      JSON_parse = sample_parse, JSON_stringify = sample_stringify, Date_value = epoch_ms\<rparr>"

text \<open>Transports that answer every call with a conflict, and one that always succeeds.\<close>

definition conflict_platform :: platform where
  "conflict_platform =
     \<lparr>transport = (\<lambda>n u b. Responds conflict_response),
      JSON_parse = sample_parse, JSON_stringify = sample_stringify, Date_value = epoch_ms\<rparr>"

definition epoch_conflict_platform :: platform where
  "epoch_conflict_platform =
     \<lparr>transport = (\<lambda>n u b. Responds \<lparr>resp_status = 409, resp_headers = [],
                                        resp_json = Inr epoch_data\<rparr>),
      JSON_parse = sample_parse, JSON_stringify = sample_stringify, Date_value = epoch_ms\<rparr>"

definition odd_conflict_platform :: platform where
  "odd_conflict_platform =
     \<lparr>transport = (\<lambda>n u b. Responds odd_conflict_response),
      JSON_parse = sample_parse, JSON_stringify = sample_stringify, Date_value = epoch_ms\<rparr>"

definition garbled_conflict_platform :: platform where
  "garbled_conflict_platform =
     \<lparr>transport = (\<lambda>n u b. Responds garbled_conflict_response),
      JSON_parse = sample_parse, JSON_stringify = sample_stringify, Date_value = epoch_ms\<rparr>"

definition ok_platform :: platform where
  "ok_platform =
     \<lparr>transport = (\<lambda>n u b. Responds \<lparr>resp_status = 200, resp_headers = [],
                                        resp_json = Inr test_payload\<rparr>),
      JSON_parse = sample_parse, JSON_stringify = sample_stringify, Date_value = epoch_ms\<rparr>"

definition no_options :: SafeFetchOptions where
  "no_options = \<lparr>retryCount = None, retryDelay = None, timeout = None, fallbackData = None,
                  fallbackUrl = None, conflictResolution = None, body = None\<rparr>"

definition retry_twice :: SafeFetchOptions where
  "retry_twice = no_options\<lparr>retryCount := Some 2\<rparr>"

definition retry_once :: SafeFetchOptions where
  "retry_once = no_options\<lparr>retryCount := Some 1\<rparr>"

definition no_retry :: SafeFetchOptions where
  "no_retry = no_options\<lparr>retryCount := Some 0\<rparr>"

definition with_fallback_data :: SafeFetchOptions where
  "with_fallback_data = no_options\<lparr>fallbackData := Some fallback_payload\<rparr>"

definition with_client_body :: SafeFetchOptions where
  "with_client_body = no_options\<lparr>body := Some client_body\<rparr>"

definition with_broken_body :: SafeFetchOptions where
  "with_broken_body = no_options\<lparr>body := Some broken_body, retryCount := Some 0\<rparr>"

definition test_url :: string where
  "test_url = ''https://api.example.com/test''"

definition fresh_world :: world where
  "fresh_world = \<lparr>trace = [], logger = initialLogger\<rparr>"

section \<open>Classification\<close>

lemma str_includes_iff: "str_includes s t \<longleftrightarrow> (\<exists>p q. s = p @ t @ q)"
  by (simp add: str_includes_def sublist_def)

lemma null_read_type: "mapErrorToExceptionType null_read = NULL_POINTER"
  by (simp add: null_read_def mapErrorToExceptionType_def str_includes_def sublist_code)

lemma null_read_log_type: "determineExceptionType null_read = NULL_POINTER"
  by (simp add: null_read_def determineExceptionType_def str_includes_def sublist_code)

lemma null_call_includes:
  "str_includes (message null_call) ''null''"
  "str_includes (message null_call) ''is not a function''"
  "str_includes (message null_call) ''fetch''"
  "str_includes (message null_call) ''JSON''"
  "str_includes (message null_call) ''memory''"
  by (simp_all add: null_call_def str_includes_def sublist_code)

lemma memory_type_error_facts:
  "\<not> spec_rules_1_to_8 memory_type_error"
  "spec_rule_9 memory_type_error"
  "mapErrorToExceptionType memory_type_error = GENERAL_ERROR"
  by (simp_all add: memory_type_error_def spec_rules_1_to_8_def spec_rule_9_def
      mapErrorToExceptionType_def str_includes_def sublist_code)

lemma memory_error_facts:
  "\<not> spec_rules_1_to_8 memory_error"
  "spec_rule_9 memory_error"
  "name memory_error \<noteq> ''TypeError''"
  by (simp_all add: memory_error_def spec_rules_1_to_8_def spec_rule_9_def
      str_includes_def sublist_code)

text \<open>
  Claim C9. An exception named \<open>TypeError\<close> whose message contains \<open>null\<close> is classified
  as \<open>NULL_POINTER\<close>, by the log's classifier and by the registry's, whatever else the
  message contains: the test for \<open>null\<close> is the first one made.
\<close>

theorem type_error_null_is_null_pointer:
  assumes "name e = ''TypeError''" and "str_includes (message e) ''null''"
  shows "determineExceptionType e = NULL_POINTER \<and> mapErrorToExceptionType e = NULL_POINTER"
  using assms by (simp add: determineExceptionType_def mapErrorToExceptionType_def)

theorem type_error_null_is_null_pointer_witness:
  "name null_call = ''TypeError'' \<and> str_includes (message null_call) ''null''
   \<and> str_includes (message null_call) ''is not a function''
   \<and> str_includes (message null_call) ''fetch''
   \<and> determineExceptionType null_call = NULL_POINTER
   \<and> mapErrorToExceptionType null_call = NULL_POINTER"
proof -
  have n: "name null_call = ''TypeError''" by (simp add: null_call_def)
  from type_error_null_is_null_pointer [OF n null_call_includes(1)]
  show ?thesis using n null_call_includes by simp
qed

text \<open>
  Claim C10, as stated: every exception that none of the rules 1 to 8 matches and whose
  message contains \<open>memory\<close> or \<open>DOM\<close> is a \<open>RESOURCE_ERROR\<close> for the registry and a
  \<open>GENERAL_ERROR\<close> for the log. A \<open>TypeError\<close> with the message \<open>out of memory\<close> refutes
  it: the registry's classifier stops at the name and answers \<open>GENERAL_ERROR\<close>.
\<close>

theorem resource_rule_not_reached_for_type_error:
  "\<not> (\<forall>e. \<not> spec_rules_1_to_8 e \<and> spec_rule_9 e \<longrightarrow>
         mapErrorToExceptionType e = RESOURCE_ERROR \<and> determineExceptionType e = GENERAL_ERROR)"
proof
  assume "\<forall>e. \<not> spec_rules_1_to_8 e \<and> spec_rule_9 e \<longrightarrow>
         mapErrorToExceptionType e = RESOURCE_ERROR \<and> determineExceptionType e = GENERAL_ERROR"
  then have "mapErrorToExceptionType memory_type_error = RESOURCE_ERROR"
    using memory_type_error_facts(1,2) by blast
  then show False by (simp add: memory_type_error_facts(3))
qed

text \<open>
  Claim C10, amended. The two classifiers agree on every exception except those the
  registry classifies as \<open>RESOURCE_ERROR\<close>, which the log classifies as
  \<open>GENERAL_ERROR\<close>; and the registry answers \<open>RESOURCE_ERROR\<close> exactly when none of the
  rules 1 to 8 matches, the message contains \<open>memory\<close> or \<open>DOM\<close>, and the name is not
  \<open>TypeError\<close>.
\<close>

theorem classifiers_differ_only_on_resource_error:
  "(mapErrorToExceptionType e \<noteq> RESOURCE_ERROR \<longrightarrow>
      determineExceptionType e = mapErrorToExceptionType e)
   \<and> (mapErrorToExceptionType e = RESOURCE_ERROR \<longrightarrow> determineExceptionType e = GENERAL_ERROR)
   \<and> (mapErrorToExceptionType e = RESOURCE_ERROR \<longleftrightarrow>
        (\<not> spec_rules_1_to_8 e \<and> name e \<noteq> ''TypeError'' \<and> spec_rule_9 e))"
  by (auto simp add: determineExceptionType_def mapErrorToExceptionType_def
      spec_rules_1_to_8_def spec_rule_9_def)

theorem classifiers_differ_only_on_resource_error_witness:
  "mapErrorToExceptionType memory_error = RESOURCE_ERROR
   \<and> determineExceptionType memory_error = GENERAL_ERROR
   \<and> mapErrorToExceptionType null_read \<noteq> RESOURCE_ERROR
   \<and> determineExceptionType null_read = mapErrorToExceptionType null_read"
proof -
  have a: "mapErrorToExceptionType memory_error = RESOURCE_ERROR"
    using classifiers_differ_only_on_resource_error [of memory_error] memory_error_facts
    by blast
  have b: "mapErrorToExceptionType null_read \<noteq> RESOURCE_ERROR"
    by (simp add: null_read_type)
  from a b classifiers_differ_only_on_resource_error [of memory_error]
    classifiers_differ_only_on_resource_error [of null_read]
  show ?thesis by blast
qed

section \<open>The bounded log\<close>

lemma as_Error_error [simp]: "as_Error (JSErrorObject e) = Inr e"
  by (simp add: as_Error_def)

lemma log_throws: "as_Error err = Inl t \<Longrightarrow> log err ctx x L = (Throws t, L)"
  by (simp add: log_def)

lemma log_returns:
  "as_Error err = Inr e \<Longrightarrow>
   log err ctx x L =
     (Returns,
      L\<lparr>logEntries := (if length (logEntries L) \<ge> maxLogEntries L
                         then tl (logEntries L @ [new_entry (uuids_drawn L) e ctx x])
                         else logEntries L @ [new_entry (uuids_drawn L) e ctx x]),
        uuids_drawn := Suc (uuids_drawn L)\<rparr>)"
  by (simp add: log_def Let_def)

text \<open>What \<open>log\<close> does, said without \<open>log\<close>: it throws, or it appends one record.\<close>

lemma log_appends:
  "log err ctx x L =
     (case as_Error err of
        Inl t \<Rightarrow> (Throws t, L)
      | Inr e \<Rightarrow>
          (Returns, appended \<lparr>entry_id = uuids_drawn L, entry_error = e,
                               entry_type = determineExceptionType e, entry_component = ctx,
                               entry_extra = x\<rparr> L))"
  by (cases "as_Error err") (auto simp add: log_def Let_def appended_def new_entry_def)

lemma log_error_appends:
  "log (JSErrorObject e) ctx x L =
     (Returns, appended \<lparr>entry_id = uuids_drawn L, entry_error = e,
                          entry_type = determineExceptionType e, entry_component = ctx,
                          entry_extra = x\<rparr> L)"
  by (simp add: log_appends)

lemma log_max [simp]: "maxLogEntries (snd (log err ctx x L)) = maxLogEntries L"
  by (cases "as_Error err") (simp_all add: log_throws log_returns)

lemma log_length_le:
  "length (logEntries L) \<le> maxLogEntries L
   \<Longrightarrow> length (logEntries (snd (log err ctx x L))) \<le> maxLogEntries L"
  by (cases "as_Error err") (simp_all add: log_throws log_returns)

lemma log_entries_lt:
  "as_Error err = Inr e \<Longrightarrow> length (logEntries L) < maxLogEntries L \<Longrightarrow>
   logEntries (snd (log err ctx x L)) = logEntries L @ [new_entry (uuids_drawn L) e ctx x]"
  by (simp add: log_returns)

lemma log_entries_full:
  "as_Error err = Inr e \<Longrightarrow> length (logEntries L) = maxLogEntries L \<Longrightarrow>
   logEntries (snd (log err ctx x L)) = tl (logEntries L @ [new_entry (uuids_drawn L) e ctx x])"
  by (simp add: log_returns)

lemma log_drawn:
  "as_Error err = Inr e \<Longrightarrow> uuids_drawn (snd (log err ctx x L)) = Suc (uuids_drawn L)"
  by (simp add: log_returns)

text \<open>
  First in, first out: after any sequence of calls the log holds the newest records, as
  many as the cap allows, in the order they were written.
\<close>

lemma log_all_entries:
  "length (logEntries L) \<le> maxLogEntries L \<Longrightarrow>
   logEntries (log_all ws L) =
     drop (length (logEntries L) + length (written (uuids_drawn L) ws) - maxLogEntries L)
       (logEntries L @ written (uuids_drawn L) ws)"
proof (induction ws arbitrary: L)
  case Nil
  then show ?case by simp
next
  case (Cons w ws)
  obtain err ctx x where w: "w = (err, ctx, x)" by (cases w) auto
  show ?case
  proof (cases "as_Error err")
    case (Inl t)
    then have "log err ctx x L = (Throws t, L)" by (rule log_throws)
    then show ?thesis using Cons.IH[OF Cons.prems] Inl by (simp add: w)
  next
    case (Inr e)
    let ?L = "snd (log err ctx x L)"
    let ?e = "new_entry (uuids_drawn L) e ctx x"
    let ?zs = "written (Suc (uuids_drawn L)) ws"
    have le: "length (logEntries ?L) \<le> maxLogEntries ?L"
      using Cons.prems by (simp add: log_length_le)
    have IH: "logEntries (log_all ws ?L) =
        drop (length (logEntries ?L) + length ?zs - maxLogEntries L) (logEntries ?L @ ?zs)"
      using Cons.IH[OF le] by (simp add: log_drawn[OF Inr])
    show ?thesis
    proof (cases "length (logEntries L) < maxLogEntries L")
      case True
      then show ?thesis using IH Inr by (simp add: w log_entries_lt[OF Inr])
    next
      case False
      with Cons.prems have full: "length (logEntries L) = maxLogEntries L" by simp
      show ?thesis
      proof (cases "logEntries L")
        case Nil
        with full have "maxLogEntries L = 0" by simp
        then show ?thesis using IH Nil full Inr by (simp add: w log_entries_full[OF Inr])
      next
        case (Cons a xs)
        have cap: "maxLogEntries L = Suc (length xs)" using full Cons by simp
        have "logEntries ?L = xs @ [?e]" using full Cons by (simp add: log_entries_full[OF Inr])
        then show ?thesis using IH Cons Inr by (simp add: w cap)
      qed
    qed
  qed
qed

lemma written_ids: "map entry_id (written k ws) = [k..<k + length (written k ws)]"
proof (induction ws arbitrary: k)
  case Nil
  then show ?case by simp
next
  case (Cons w ws)
  obtain e c i where w: "w = (e, c, i)" by (cases w) auto
  show ?case
  proof (cases "as_Error e")
    case (Inl t)
    then show ?thesis using Cons.IH[of k] by (simp add: w)
  next
    case (Inr e')
    let ?n = "length (written (Suc k) ws)"
    have "k < k + Suc ?n" by simp
    then have "[k..<k + Suc ?n] = k # [Suc k..<k + Suc ?n]"
      by (rule upt_conv_Cons)
    then have "[k..<k + Suc ?n] = k # [Suc k..<Suc k + ?n]"
      by (simp only: add_Suc add_Suc_right)
    then show ?thesis using Cons.IH[of "Suc k"] Inr by (simp add: w new_entry_def)
  qed
qed

lemma written_all:
  "\<forall>w \<in> set ws. is_Error (fst w) \<Longrightarrow> length (written k ws) = length ws"
proof (induction ws arbitrary: k)
  case Nil
  then show ?case by simp
next
  case (Cons w ws)
  obtain e c i where w: "w = (e, c, i)" by (cases w) auto
  from Cons.prems w obtain e' where "e = JSErrorObject e'" by (cases e) auto
  then show ?case using Cons by (simp add: w)
qed

lemma log_all_overflow_by_one:
  assumes "logEntries L = []" and "length (written (uuids_drawn L) ws) = Suc (maxLogEntries L)"
  shows "logEntries (log_all ws L) = tl (written (uuids_drawn L) ws)"
proof -
  have "logEntries (log_all ws L) =
      drop (length (written (uuids_drawn L) ws) - maxLogEntries L) (written (uuids_drawn L) ws)"
    using log_all_entries[of L ws] assms(1) by simp
  also have "length (written (uuids_drawn L) ws) - maxLogEntries L = Suc 0" using assms(2) by simp
  finally show ?thesis by (simp add: drop_Suc)
qed

lemma initial_facts:
  "logEntries initialLogger = []"
  "maxLogEntries initialLogger = 1000"
  "uuids_drawn initialLogger = 0"
  by (simp_all add: initialLogger_def)

lemma many_writes_length: "length many_writes = 1001"
  by (simp only: many_writes_def length_replicate)

lemma many_writes_written: "length (written 0 many_writes) = 1001"
proof -
  have "\<forall>w \<in> set many_writes. is_Error (fst w)" by (simp add: many_writes_def)
  then have "length (written 0 many_writes) = length many_writes" by (rule written_all)
  then show ?thesis by (simp only: many_writes_length)
qed

text \<open>
  Claim C8. A call of \<open>log\<close> on a log that is within its cap leaves it within its cap.
  After 1001 records have been written to the initial log, whose cap is 1000, the log
  holds the last 1000 of them in the order of writing: there are exactly 1000, and their
  identifiers are 1, 2, ... in this order, so the first record written (identifier 0) is
  gone. And the record of a write is the last one of the log, the most recent last.
\<close>

theorem log_keeps_newest_within_cap:
  "(length (logEntries L) \<le> maxLogEntries L \<longrightarrow>
      length (logEntries (snd (log err ctx x L))) \<le> maxLogEntries (snd (log err ctx x L)))
   \<and> (length (written 0 ws) = 1001 \<longrightarrow>
        logEntries (log_all ws initialLogger) = tl (written 0 ws)
        \<and> length (logEntries (log_all ws initialLogger)) = 1000
        \<and> map entry_id (logEntries (log_all ws initialLogger))
            = [1..<Suc (length (tl (written 0 ws)))])
   \<and> (0 < maxLogEntries L \<longrightarrow>
        last (logEntries (snd (log (JSErrorObject e) ctx x L))) =
          \<lparr>entry_id = uuids_drawn L, entry_error = e, entry_type = determineExceptionType e,
           entry_component = ctx, entry_extra = x\<rparr>)"
proof (intro conjI impI)
  assume "length (logEntries L) \<le> maxLogEntries L"
  then show "length (logEntries (snd (log err ctx x L))) \<le> maxLogEntries (snd (log err ctx x L))"
    by (simp add: log_length_le)
next
  assume n: "length (written 0 ws) = 1001"
  have n1: "length (written (uuids_drawn initialLogger) ws) = Suc (maxLogEntries initialLogger)"
    by (simp only: n initial_facts Suc_numeral) simp
  have lt: "length (tl (written 0 ws)) = 1000"
    by (simp only: length_tl n)
  show a: "logEntries (log_all ws initialLogger) = tl (written 0 ws)"
    using log_all_overflow_by_one[OF initial_facts(1) n1]
    by (simp only: initial_facts)
  show "length (logEntries (log_all ws initialLogger)) = 1000"
    by (simp only: a lt)
  have ids: "map entry_id (written 0 ws) = [0..<0 + length (written 0 ws)]"
    by (rule written_ids)
  have ne: "written 0 ws \<noteq> []" using n by auto
  have "0 < length (written 0 ws)" using ne by simp
  then have "[0..<length (written 0 ws)] = 0 # [Suc 0..<length (written 0 ws)]"
    by (rule upt_conv_Cons)
  then have "map entry_id (written 0 ws) = 0 # [Suc 0..<length (written 0 ws)]"
    using ids by simp
  then have "map entry_id (tl (written 0 ws)) = [Suc 0..<length (written 0 ws)]"
    by (simp add: map_tl)
  moreover have "length (written 0 ws) = Suc (length (tl (written 0 ws)))"
    using ne by simp
  ultimately show "map entry_id (logEntries (log_all ws initialLogger))
      = [1..<Suc (length (tl (written 0 ws)))]"
    by (simp only: a One_nat_def)
next
  assume "0 < maxLogEntries L"
  then show "last (logEntries (snd (log (JSErrorObject e) ctx x L))) =
          \<lparr>entry_id = uuids_drawn L, entry_error = e, entry_type = determineExceptionType e,
           entry_component = ctx, entry_extra = x\<rparr>"
    by (cases "logEntries L") (auto simp add: log_returns new_entry_def)
qed

theorem log_keeps_newest_within_cap_witness:
  "length (logEntries initialLogger) \<le> maxLogEntries initialLogger
   \<and> length (logEntries (snd (log JSNull ''boot'' NoExtra initialLogger)))
        \<le> maxLogEntries (snd (log JSNull ''boot'' NoExtra initialLogger))
   \<and> length (written 0 many_writes) = 1001
   \<and> logEntries (log_all many_writes initialLogger) = tl (written 0 many_writes)
   \<and> length (logEntries (log_all many_writes initialLogger)) = 1000
   \<and> 0 < maxLogEntries initialLogger
   \<and> last (logEntries (snd (log (JSErrorObject null_read) ''boot'' NoExtra initialLogger))) =
          \<lparr>entry_id = 0, entry_error = null_read, entry_type = NULL_POINTER,
           entry_component = ''boot'', entry_extra = NoExtra\<rparr>"
proof -
  have a: "length (logEntries initialLogger) \<le> maxLogEntries initialLogger"
    by (simp add: initial_facts)
  have b: "0 < maxLogEntries initialLogger"
    by (simp add: initial_facts)
  note t = log_keeps_newest_within_cap [of initialLogger JSNull "''boot''" NoExtra many_writes
      null_read]
  from t a b many_writes_written
  show ?thesis by (simp add: initial_facts null_read_log_type)
qed

section \<open>Dispatch to handlers\<close>

text \<open>
  The report of a handler failure, said without \<open>log\<close>: the template literal throws, or
  one record is appended under the context \<open>handler-failure\<close>.
\<close>

lemma report_handler_failure_appends:
  "report_handler_failure v err ctx x L =
     (case template_string v of
        Inl t \<Rightarrow> (Throws t, L)
      | Inr msg \<Rightarrow>
          (Returns,
           appended \<lparr>entry_id = uuids_drawn L,
                      entry_error = new_Error (''Custom handler failed: '' @ msg),
                      entry_type = determineExceptionType (new_Error (''Custom handler failed: '' @ msg)),
                      entry_component = ''handler-failure'',
                      entry_extra = HandlerFailure err ctx x\<rparr> L))"
  by (cases "template_string v")
     (simp_all add: report_handler_failure_def handler_failure_def log_error_appends)

lemma appended_drawn [simp]: "uuids_drawn (appended r L) = Suc (uuids_drawn L)"
  by (simp add: appended_def)

text \<open>
  \<open>ExceptionRegistry.handleException\<close> runs the handler that \<open>dispatch_lookup\<close> finds,
  once, on the exception with its context and extra information; the failure of the
  handler is reported.
\<close>

lemma registry_dispatch:
  "registry_handleException hs e ctx x (s, L) =
     (case dispatch_lookup hs e of
        None \<Rightarrow> (Returns, s, L)
      | Some h \<Rightarrow>
          (case h (JSErrorObject e) ctx x s of
             (Returns, s') \<Rightarrow> (Returns, s', L)
           | (Throws v, s') \<Rightarrow>
               (case report_handler_failure v (JSErrorObject e) ctx x L of
                  (out, L') \<Rightarrow> (out, s', L'))))"
  by (simp add: dispatch_lookup_def Let_def split: option.splits)

lemma registry_type_handler_invoked:
  assumes "getHandler hs (ByConstructor (constructor e)) = None"
    and "getHandler hs (ByExceptionType (mapErrorToExceptionType e)) = Some h"
  shows "registry_handleException hs e ctx x (s, L) =
     (case h (JSErrorObject e) ctx x s of
        (Returns, s') \<Rightarrow> (Returns, s', L)
      | (Throws v, s') \<Rightarrow>
          (case report_handler_failure v (JSErrorObject e) ctx x L of
             (out, L') \<Rightarrow> (out, s', L')))"
  using assms by (simp add: registry_dispatch dispatch_lookup_def del: registry_handleException.simps)

lemma registry_constructor_handler_first:
  assumes "getHandler hs (ByConstructor (constructor e)) = Some h"
  shows "registry_handleException hs e ctx x (s, L) =
     (case h (JSErrorObject e) ctx x s of
        (Returns, s') \<Rightarrow> (Returns, s', L)
      | (Throws v, s') \<Rightarrow>
          (case report_handler_failure v (JSErrorObject e) ctx x L of
             (out, L') \<Rightarrow> (out, s', L')))"
  using assms by (simp add: registry_dispatch dispatch_lookup_def del: registry_handleException.simps)

text \<open>
  Claim C5. The handler registered for the exception type \<open>NULL_POINTER\<close> is to be run
  for a \<open>TypeError\<close> about \<open>null\<close> that has no handler under its constructor.
  \<open>ExceptionRegistry.handleException\<close> runs it (the counter goes to 1), while
  \<open>ExceptionInterceptor.handleException\<close>, which receives the captured exceptions, looks
  up the constructor only: the counter stays 0 and the exception is logged, as the one
  record of the log.
\<close>

theorem interceptor_ignores_type_handler:
  "getHandler kind_handlers (ByConstructor (constructor null_read)) = None
   \<and> getHandler kind_handlers (ByExceptionType (mapErrorToExceptionType null_read))
       = Some counting_handler
   \<and> registry_handleException kind_handlers null_read ''test-context'' test_extra
       (0, initialLogger) = (Returns, Suc 0, initialLogger)
   \<and> interceptor_handleException kind_handlers (JSErrorObject null_read) ''test-context''
       test_extra (0, initialLogger)
       = (Returns, 0, snd (log (JSErrorObject null_read) ''test-context'' test_extra initialLogger))
   \<and> snd (log (JSErrorObject null_read) ''test-context'' test_extra initialLogger)
       = \<lparr>logEntries = [\<lparr>entry_id = 0, entry_error = null_read, entry_type = NULL_POINTER,
                          entry_component = ''test-context'', entry_extra = test_extra\<rparr>],
          maxLogEntries = 1000, uuids_drawn = 1\<rparr>"
  by (simp add: kind_handlers_def registerHandler_def getHandler_def getHandler_for_def
      null_read_type null_read_log_type counting_handler_def Let_def log_error_appends
      appended_def initialLogger_def)

lemma sample_lookups:
  "constructor null_read = Ctor ''TypeError''"
  "constructor_of (JSErrorObject null_read) = Inr (Some (Ctor ''TypeError''))"
  "as_Error (JSErrorObject null_read) = Inr null_read"
  "getHandler_for failing_handlers (Some (Ctor ''TypeError'')) = Some failing_handler"
  "getHandler_for symbol_handlers (Some (Ctor ''TypeError'')) = Some symbol_handler"
  "getHandler_for type_handlers (Some (Ctor ''TypeError'')) = Some counting_handler"
  "getHandler_for no_handlers (Some (Ctor ''TypeError'')) = None"
  "dispatch_lookup failing_handlers null_read = Some failing_handler"
  "dispatch_lookup symbol_handlers null_read = Some symbol_handler"
  "dispatch_lookup type_handlers null_read = Some counting_handler"
  "dispatch_lookup no_handlers null_read = None"
  by (simp_all add: failing_handlers_def symbol_handlers_def type_handlers_def no_handlers_def
      registerHandler_def getHandler_def getHandler_for_def dispatch_lookup_def null_read_def)

lemma sample_handlers:
  "failing_handler err ctx x 0 = (Throws (JSOther (Ctor ''String'') ''boom''), Suc 0)"
  "symbol_handler err ctx x 0 = (Throws (JSSymbol ''boom''), Suc 0)"
  "counting_handler err ctx x 0 = (Returns, Suc 0)"
  "template_string (JSOther (Ctor ''String'') ''boom'') = Inr ''boom''"
  "template_string (JSSymbol ''boom'')
     = Inl (new_TypeError ''Cannot convert a Symbol value to a string'')"
  by (simp_all add: failing_handler_def symbol_handler_def counting_handler_def)

lemma failure_report_type:
  "determineExceptionType (new_Error ''Custom handler failed: boom'') = GENERAL_ERROR"
  by (simp add: determineExceptionType_def new_Error_def str_includes_def sublist_code)

text \<open>
  A handler that throws a value with a string form is isolated: both dispatchers return
  normally, the handler has run once, and the failure report is appended to the log, as
  one record under the context \<open>handler-failure\<close> whose payload is the original
  exception, its context and its extra information. A handler that throws a value
  without one is not: what the template literal throws leaves both dispatchers, and the
  log is as it was.
\<close>

lemma throwing_handler_is_isolated:
  assumes "template_string v = Inr msg"
  shows "dispatch_lookup hs e = Some h \<and> h (JSErrorObject e) ctx x s = (Throws v, s') \<longrightarrow>
      registry_handleException hs e ctx x (s, L) =
        (Returns, s',
         appended \<lparr>entry_id = uuids_drawn L,
                    entry_error = new_Error (''Custom handler failed: '' @ msg),
                    entry_type = determineExceptionType (new_Error (''Custom handler failed: '' @ msg)),
                    entry_component = ''handler-failure'',
                    entry_extra = HandlerFailure (JSErrorObject e) ctx x\<rparr> L)"
    and "constructor_of err = Inr c \<and> as_Error err = Inr e' \<and> getHandler_for hs c = Some h'
        \<and> h' err ctx x s = (Throws v, s') \<longrightarrow>
      interceptor_handleException hs err ctx x (s, L) =
        (Returns, s',
         appended \<lparr>entry_id = Suc (uuids_drawn L), entry_error = e',
                    entry_type = determineExceptionType e', entry_component = ctx,
                    entry_extra = x\<rparr>
           (appended \<lparr>entry_id = uuids_drawn L,
                       entry_error = new_Error (''Custom handler failed: '' @ msg),
                       entry_type =
                         determineExceptionType (new_Error (''Custom handler failed: '' @ msg)),
                       entry_component = ''handler-failure'',
                       entry_extra = HandlerFailure err ctx x\<rparr> L))"
  using assms
  by (simp_all add: registry_dispatch report_handler_failure_appends log_appends
      del: registry_handleException.simps)

lemma handler_failure_escapes:
  assumes "template_string v = Inl t"
  shows "dispatch_lookup hs e = Some h \<and> h (JSErrorObject e) ctx x s = (Throws v, s') \<longrightarrow>
      registry_handleException hs e ctx x (s, L) = (Throws t, s', L)"
    and "constructor_of err = Inr c \<and> getHandler_for hs c = Some h'
        \<and> h' err ctx x s = (Throws v, s') \<longrightarrow>
      interceptor_handleException hs err ctx x (s, L) = (Throws t, s', L)"
  using assms
  by (simp_all add: registry_dispatch report_handler_failure_appends
      del: registry_handleException.simps)

text \<open>
  Claim C6. A handler that throws is to be isolated: the failure never leaves dispatch
  and one record with the context \<open>handler-failure\<close> is appended. So it is when the
  handler throws the string \<open>boom\<close>: dispatch returns and the log holds the one record.
  But when the handler throws a symbol, the template literal that builds the report
  throws a \<open>TypeError\<close> inside the \<open>catch\<close>: it leaves
  \<open>ExceptionRegistry.handleException\<close> and \<open>ExceptionInterceptor.handleException\<close>, and
  nothing is written to the log.
\<close>

theorem symbol_thrown_by_handler_escapes:
  "dispatch_lookup failing_handlers null_read = Some failing_handler
   \<and> failing_handler (JSErrorObject null_read) ''render'' NoExtra 0
       = (Throws (JSOther (Ctor ''String'') ''boom''), Suc 0)
   \<and> registry_handleException failing_handlers null_read ''render'' NoExtra (0, initialLogger)
       = (Returns, Suc 0,
          \<lparr>logEntries = [\<lparr>entry_id = 0,
                           entry_error = new_Error ''Custom handler failed: boom'',
                           entry_type = GENERAL_ERROR,
                           entry_component = ''handler-failure'',
                           entry_extra = HandlerFailure (JSErrorObject null_read) ''render'' NoExtra\<rparr>],
           maxLogEntries = 1000, uuids_drawn = 1\<rparr>)
   \<and> dispatch_lookup symbol_handlers null_read = Some symbol_handler
   \<and> symbol_handler (JSErrorObject null_read) ''render'' NoExtra 0
       = (Throws (JSSymbol ''boom''), Suc 0)
   \<and> registry_handleException symbol_handlers null_read ''render'' NoExtra (0, initialLogger)
       = (Throws (new_TypeError ''Cannot convert a Symbol value to a string''), Suc 0,
          initialLogger)
   \<and> interceptor_handleException symbol_handlers (JSErrorObject null_read) ''render'' NoExtra
        (0, initialLogger)
       = (Throws (new_TypeError ''Cannot convert a Symbol value to a string''), Suc 0,
          initialLogger)
   \<and> logEntries initialLogger = []"
  by (simp add: registry_dispatch sample_lookups sample_handlers report_handler_failure_appends
      failure_report_type appended_def initialLogger_def
      del: registry_handleException.simps)

text \<open>
  The exceptions that \<open>ExceptionInterceptor.handleException\<close> cannot take: reading the
  constructor of \<open>undefined\<close> or \<open>null\<close> throws, and an object without a prototype has
  no handler and cannot be converted by \<open>log\<close>. The method throws and the log is as it
  was.
\<close>

lemma interceptor_throws_without_logging:
  "interceptor_handleException hs JSUndefined ctx x (s, L) =
     (Throws (new_TypeError ''Cannot read properties of undefined (reading 'constructor')''),
      s, L)"
  "interceptor_handleException hs JSNull ctx x (s, L) =
     (Throws (new_TypeError ''Cannot read properties of null (reading 'constructor')''), s, L)"
  "interceptor_handleException hs JSBare ctx x (s, L) =
     (Throws (new_TypeError ''Cannot convert object to primitive value''), s, L)"
  by (simp_all add: getHandler_for_def log_appends as_Error_def)

text \<open>
  Claim C7, as stated: every exception that enters dispatch has been written to the log
  when dispatch returns, also when a handler ran and returned. It fails. From the empty
  log, \<open>ExceptionInterceptor.handleException\<close> writes the record of a \<open>TypeError\<close> when
  no handler is registered; with a handler under the constructor that returns, it
  returns right after the handler and the log is still empty. And
  \<open>ExceptionRegistry.handleException\<close> leaves the log empty with that handler and with
  none.
\<close>

theorem handled_exception_is_not_logged:
  "logEntries initialLogger = []
   \<and> interceptor_handleException no_handlers (JSErrorObject null_read) ''globalerror'' NoExtra
        (0, initialLogger)
       = (Returns, 0,
          \<lparr>logEntries = [\<lparr>entry_id = 0, entry_error = null_read, entry_type = NULL_POINTER,
                           entry_component = ''globalerror'', entry_extra = NoExtra\<rparr>],
           maxLogEntries = 1000, uuids_drawn = 1\<rparr>)
   \<and> interceptor_handleException type_handlers (JSErrorObject null_read) ''globalerror'' NoExtra
        (0, initialLogger)
       = (Returns, Suc 0, initialLogger)
   \<and> registry_handleException type_handlers null_read ''globalerror'' NoExtra (0, initialLogger)
       = (Returns, Suc 0, initialLogger)
   \<and> registry_handleException no_handlers null_read ''globalerror'' NoExtra (0, initialLogger)
       = (Returns, 0, initialLogger)"
  by (simp add: registry_dispatch sample_lookups sample_handlers log_error_appends
      null_read_log_type appended_def initialLogger_def
      del: registry_handleException.simps)

text \<open>
  Claim C7, amended. \<open>ExceptionInterceptor.handleException\<close>, on an exception other than
  \<open>undefined\<close> and \<open>null\<close> that is an \<open>Error\<close> or has a string form: with no handler
  under its constructor, the record of the exception is appended to the log, under the
  caller's context and extra information; with a handler that throws a value with a
  string form, the failure report is appended and then the record of the exception; with
  a handler that returns, nothing is written. \<open>ExceptionRegistry.handleException\<close> never
  writes the exception: with no handler, or with one that returns, it writes nothing, and
  with one that throws it appends the failure report only.
\<close>

theorem interceptor_logs_unless_handled:
  "(constructor_of err = Inr c \<and> as_Error err = Inr e \<and> getHandler_for hs c = None \<longrightarrow>
      interceptor_handleException hs err ctx x (s, L) =
        (Returns, s,
         appended \<lparr>entry_id = uuids_drawn L, entry_error = e,
                    entry_type = determineExceptionType e, entry_component = ctx,
                    entry_extra = x\<rparr> L))
   \<and> (constructor_of err = Inr c \<and> as_Error err = Inr e \<and> getHandler_for hs c = Some h
        \<and> h err ctx x s = (Throws v, s') \<and> template_string v = Inr msg \<longrightarrow>
      interceptor_handleException hs err ctx x (s, L) =
        (Returns, s',
         appended \<lparr>entry_id = Suc (uuids_drawn L), entry_error = e,
                    entry_type = determineExceptionType e, entry_component = ctx,
                    entry_extra = x\<rparr>
           (appended \<lparr>entry_id = uuids_drawn L,
                       entry_error = new_Error (''Custom handler failed: '' @ msg),
                       entry_type =
                         determineExceptionType (new_Error (''Custom handler failed: '' @ msg)),
                       entry_component = ''handler-failure'',
                       entry_extra = HandlerFailure err ctx x\<rparr> L)))
   \<and> (constructor_of err = Inr c \<and> getHandler_for hs c = Some h
        \<and> h err ctx x s = (Returns, s') \<longrightarrow>
      interceptor_handleException hs err ctx x (s, L) = (Returns, s', L))
   \<and> (dispatch_lookup hs e0 = None \<longrightarrow>
      registry_handleException hs e0 ctx x (s, L) = (Returns, s, L))
   \<and> (dispatch_lookup hs e0 = Some h0 \<and> h0 (JSErrorObject e0) ctx x s = (Returns, s') \<longrightarrow>
      registry_handleException hs e0 ctx x (s, L) = (Returns, s', L))
   \<and> (dispatch_lookup hs e0 = Some h0 \<and> h0 (JSErrorObject e0) ctx x s = (Throws v, s')
        \<and> template_string v = Inr msg \<longrightarrow>
      registry_handleException hs e0 ctx x (s, L) =
        (Returns, s',
         appended \<lparr>entry_id = uuids_drawn L,
                    entry_error = new_Error (''Custom handler failed: '' @ msg),
                    entry_type =
                      determineExceptionType (new_Error (''Custom handler failed: '' @ msg)),
                    entry_component = ''handler-failure'',
                    entry_extra = HandlerFailure (JSErrorObject e0) ctx x\<rparr> L))"
  by (simp add: registry_dispatch report_handler_failure_appends log_appends
      del: registry_handleException.simps)

theorem interceptor_logs_unless_handled_witness:
  "constructor_of (JSErrorObject null_read) = Inr (Some (Ctor ''TypeError''))
   \<and> as_Error (JSErrorObject null_read) = Inr null_read
   \<and> failing_handler (JSErrorObject null_read) ''globalerror'' NoExtra 0
       = (Throws (JSOther (Ctor ''String'') ''boom''), Suc 0)
   \<and> template_string (JSOther (Ctor ''String'') ''boom'') = Inr ''boom''
   \<and> interceptor_handleException no_handlers (JSErrorObject null_read) ''globalerror'' NoExtra
        (0, initialLogger)
       = (Returns, 0,
          \<lparr>logEntries = [\<lparr>entry_id = 0, entry_error = null_read, entry_type = NULL_POINTER,
                           entry_component = ''globalerror'', entry_extra = NoExtra\<rparr>],
           maxLogEntries = 1000, uuids_drawn = 1\<rparr>)
   \<and> interceptor_handleException failing_handlers (JSErrorObject null_read) ''globalerror''
        NoExtra (0, initialLogger)
       = (Returns, Suc 0,
          \<lparr>logEntries =
             [\<lparr>entry_id = 0, entry_error = new_Error ''Custom handler failed: boom'',
               entry_type = GENERAL_ERROR, entry_component = ''handler-failure'',
               entry_extra = HandlerFailure (JSErrorObject null_read) ''globalerror'' NoExtra\<rparr>,
              \<lparr>entry_id = 1, entry_error = null_read, entry_type = NULL_POINTER,
               entry_component = ''globalerror'', entry_extra = NoExtra\<rparr>],
           maxLogEntries = 1000, uuids_drawn = 2\<rparr>)
   \<and> interceptor_handleException type_handlers (JSErrorObject null_read) ''globalerror'' NoExtra
        (0, initialLogger)
       = (Returns, Suc 0, initialLogger)
   \<and> registry_handleException no_handlers null_read ''globalerror'' NoExtra (0, initialLogger)
       = (Returns, 0, initialLogger)
   \<and> registry_handleException type_handlers null_read ''globalerror'' NoExtra (0, initialLogger)
       = (Returns, Suc 0, initialLogger)
   \<and> registry_handleException failing_handlers null_read ''globalerror'' NoExtra
        (0, initialLogger)
       = (Returns, Suc 0,
          \<lparr>logEntries =
             [\<lparr>entry_id = 0, entry_error = new_Error ''Custom handler failed: boom'',
               entry_type = GENERAL_ERROR, entry_component = ''handler-failure'',
               entry_extra = HandlerFailure (JSErrorObject null_read) ''globalerror'' NoExtra\<rparr>],
           maxLogEntries = 1000, uuids_drawn = 1\<rparr>)"
proof -
  note a = interceptor_logs_unless_handled [where err = "JSErrorObject null_read"
      and c = "Some (Ctor ''TypeError'')" and e = null_read and hs = no_handlers
      and ctx = "''globalerror''" and x = NoExtra and s = 0 and L = initialLogger
      and ?e0.0 = null_read]
  note b = interceptor_logs_unless_handled [where err = "JSErrorObject null_read"
      and c = "Some (Ctor ''TypeError'')" and e = null_read and hs = failing_handlers
      and ctx = "''globalerror''" and x = NoExtra and s = 0 and L = initialLogger
      and h = failing_handler and v = "JSOther (Ctor ''String'') ''boom''" and s' = "Suc 0"
      and msg = "''boom''" and ?e0.0 = null_read and ?h0.0 = failing_handler]
  note c = interceptor_logs_unless_handled [where err = "JSErrorObject null_read"
      and c = "Some (Ctor ''TypeError'')" and e = null_read and hs = type_handlers
      and ctx = "''globalerror''" and x = NoExtra and s = 0 and L = initialLogger
      and h = counting_handler and s' = "Suc 0"
      and ?e0.0 = null_read and ?h0.0 = counting_handler]
  have i1: "interceptor_handleException no_handlers (JSErrorObject null_read) ''globalerror''
        NoExtra (0, initialLogger) =
        (Returns, 0,
         appended \<lparr>entry_id = uuids_drawn initialLogger, entry_error = null_read,
                    entry_type = determineExceptionType null_read,
                    entry_component = ''globalerror'', entry_extra = NoExtra\<rparr> initialLogger)"
    and r1: "registry_handleException no_handlers null_read ''globalerror'' NoExtra
        (0, initialLogger) = (Returns, 0, initialLogger)"
    using a sample_lookups by blast+
  have i2: "interceptor_handleException failing_handlers (JSErrorObject null_read)
        ''globalerror'' NoExtra (0, initialLogger) =
        (Returns, Suc 0,
         appended \<lparr>entry_id = Suc (uuids_drawn initialLogger), entry_error = null_read,
                    entry_type = determineExceptionType null_read,
                    entry_component = ''globalerror'', entry_extra = NoExtra\<rparr>
           (appended \<lparr>entry_id = uuids_drawn initialLogger,
                       entry_error = new_Error (''Custom handler failed: '' @ ''boom''),
                       entry_type =
                         determineExceptionType (new_Error (''Custom handler failed: '' @ ''boom'')),
                       entry_component = ''handler-failure'',
                       entry_extra = HandlerFailure (JSErrorObject null_read) ''globalerror''
                                       NoExtra\<rparr> initialLogger))"
    and r2: "registry_handleException failing_handlers null_read ''globalerror'' NoExtra
        (0, initialLogger) =
        (Returns, Suc 0,
         appended \<lparr>entry_id = uuids_drawn initialLogger,
                    entry_error = new_Error (''Custom handler failed: '' @ ''boom''),
                    entry_type =
                      determineExceptionType (new_Error (''Custom handler failed: '' @ ''boom'')),
                    entry_component = ''handler-failure'',
                    entry_extra = HandlerFailure (JSErrorObject null_read) ''globalerror''
                                    NoExtra\<rparr> initialLogger)"
    using b sample_lookups sample_handlers by blast+
  have i3: "interceptor_handleException type_handlers (JSErrorObject null_read) ''globalerror''
        NoExtra (0, initialLogger) = (Returns, Suc 0, initialLogger)"
    and r3: "registry_handleException type_handlers null_read ''globalerror'' NoExtra
        (0, initialLogger) = (Returns, Suc 0, initialLogger)"
    using c sample_lookups sample_handlers by blast+
  show ?thesis
    unfolding i1 i2 i3 r1 r2 r3
    by (simp add: sample_lookups sample_handlers failure_report_type null_read_log_type
        appended_def initialLogger_def)
qed

section \<open>The resilient request\<close>

lemma is_Error_iff: "is_Error v \<longleftrightarrow> (\<exists>e. v = JSErrorObject e)"
  by (cases v) auto

lemma defined_Error [simp]: "defined (JSErrorObject e) = Some (JSErrorObject e)"
  by (simp add: defined_def)

lemma calls_made_call [simp]:
  "calls_made (w\<lparr>trace := trace w @ [Call site url b]\<rparr>) = Suc (calls_made w)"
  by (simp add: calls_made_def)

lemma calls_made_delay [simp]: "calls_made (delay ms w) = calls_made w"
  by (simp add: calls_made_def delay_def)

lemma trace_delay [simp]: "trace (delay ms w) = trace w @ [Delay ms]"
  by (simp add: delay_def)

text \<open>What \<open>log\<close> does to the world, said without \<open>log\<close>.\<close>

lemma log_world_appends:
  "log_world v ctx x w =
     (case as_Error v of Inl t \<Rightarrow> (Throws t, w) | Inr e \<Rightarrow> (Returns, logged e ctx x w))"
  by (cases "as_Error v") (simp_all add: log_world_def log_appends logged_def)

lemma log_world_error [simp]:
  "log_world (JSErrorObject e) ctx x w = (Returns, logged e ctx x w)"
  by (simp add: log_world_appends)

lemma trace_logged [simp]: "trace (logged e c x w) = trace w"
  by (simp add: logged_def)

lemma calls_made_logged [simp]: "calls_made (logged e c x w) = calls_made w"
  by (simp add: calls_made_def)

lemma try_block_fails:
  assumes "attempt_fails m (transport P (calls_made w) url (m_body m))"
  shows "\<exists>c l1 w1. try_block P url m l w = (c, l1, w1)
          \<and> (\<forall>r. c \<noteq> Returned r)
          \<and> (\<forall>v. c = Threw v \<longrightarrow> is_Error v)
          \<and> trace w1 = trace w @ [Call Primary url (m_body m)]
          \<and> (case c of Threw v \<Rightarrow> l1\<lparr>lastError := defined v\<rparr> | _ \<Rightarrow> l1)
              = record_failure (transport P (calls_made w) url (m_body m)) l"
  using assms
  by (auto simp add: try_block_def global_fetch_def attempt_fails_def unreadable_def
      record_failure_def failure_of_def handleConflict_def conflict_catch_def Let_def
      is_Error_iff
      split: fetch_outcome.splits sum.splits)

lemma primary_outcomes_Suc:
  "primary_outcomes P url b first (Suc n) =
     transport P first url b # primary_outcomes P url b (Suc first) n"
proof -
  have "[0..<Suc n] = 0 # map Suc [0..<n]"
    by (simp add: upt_conv_Cons map_Suc_upt del: upt_Suc)
  then show ?thesis by (simp add: primary_outcomes_def comp_def del: upt_Suc)
qed

lemma primary_outcomes_0 [simp]: "primary_outcomes P url b first 0 = []"
  by (simp add: primary_outcomes_def)

lemma fetch_loop_all_fail:
  assumes af: "always_fails P m"
  shows "nat (m_retryCount m + 1 - int a) = n \<Longrightarrow>
     \<exists>w'. fetch_loop P url opts m a l w =
             (Completed, record_failures (primary_outcomes P url (m_body m) (calls_made w) n) l, w')
        \<and> trace w' = trace w @ loop_trace url (m_body m) (m_retryDelay m) a n"
proof (induction n arbitrary: a l w)
  case 0
  then have "\<not> int a \<le> m_retryCount m" by simp
  then show ?case by (simp add: fetch_loop.simps)
next
  case (Suc n)
  then have le: "int a \<le> m_retryCount m" by simp
  have n: "nat (m_retryCount m + 1 - int (Suc a)) = n" using Suc.prems by simp
  have more: "int (a + 1) \<le> m_retryCount m \<longleftrightarrow> n \<noteq> 0" using Suc.prems by auto
  let ?out = "transport P (calls_made w) url (m_body m)"
  have "attempt_fails m ?out" using af by (simp add: always_fails_def)
  from try_block_fails[OF this, of l]
  obtain c l1 w1 where tb: "try_block P url m l w = (c, l1, w1)"
    and nr: "\<forall>r. c \<noteq> Returned r"
    and er: "\<forall>v. c = Threw v \<longrightarrow> is_Error v"
    and tr: "trace w1 = trace w @ [Call Primary url (m_body m)]"
    and rf: "(case c of Threw v \<Rightarrow> l1\<lparr>lastError := defined v\<rparr> | _ \<Rightarrow> l1) = record_failure ?out l"
    by blast
  have cm: "calls_made w1 = Suc (calls_made w)"
    by (simp add: calls_made_def tr)
  show ?case
  proof (cases c)
    case (Returned r)
    with nr show ?thesis by simp
  next
    case (Threw v)
    with er obtain e where v: "v = JSErrorObject e" by (auto simp add: is_Error_iff)
    let ?w2 = "logged e ''safe-fetch'' (RequestInfo url (Some a) opts) w1"
    let ?w3 = "if n \<noteq> 0 then delay (m_retryDelay m * 2 ^ a) ?w2 else ?w2"
    have step: "fetch_loop P url opts m a l w =
        fetch_loop P url opts m (Suc a) (record_failure ?out l) ?w3"
      using le tb Threw rf more v
      by (subst fetch_loop.simps) (simp add: catch_block_def)
    from Suc.IH[OF n, of "record_failure ?out l" ?w3]
    obtain w' where "fetch_loop P url opts m (Suc a) (record_failure ?out l) ?w3 =
        (Completed, record_failures (primary_outcomes P url (m_body m) (calls_made ?w3) n)
                 (record_failure ?out l), w')"
      and "trace w' = trace ?w3 @ loop_trace url (m_body m) (m_retryDelay m) (Suc a) n"
      by blast
    then show ?thesis using step cm tr
      by (auto simp add: primary_outcomes_Suc)
  next
    case Completed
    let ?w3 = "if n \<noteq> 0 then delay (m_retryDelay m * 2 ^ a) w1 else w1"
    have step: "fetch_loop P url opts m a l w =
        fetch_loop P url opts m (Suc a) (record_failure ?out l) ?w3"
      using le tb Completed rf more
      by (subst fetch_loop.simps) simp
    from Suc.IH[OF n, of "record_failure ?out l" ?w3]
    obtain w' where "fetch_loop P url opts m (Suc a) (record_failure ?out l) ?w3 =
        (Completed, record_failures (primary_outcomes P url (m_body m) (calls_made ?w3) n)
                 (record_failure ?out l), w')"
      and "trace w' = trace ?w3 @ loop_trace url (m_body m) (m_retryDelay m) (Suc a) n"
      by blast
    then show ?thesis using step cm tr
      by (auto simp add: primary_outcomes_Suc)
  qed
qed

lemma loop_trace_schedule:
  "loop_trace url b rd a (Suc n) =
     Call Primary url b #
     concat (map (\<lambda>k. [Delay (rd * 2 ^ (k - 1)), Call Primary url b]) [Suc a..<Suc a + n])"
proof (induction n arbitrary: a)
  case 0
  then show ?case by simp
next
  case (Suc n)
  have "Suc a < Suc a + Suc n" by simp
  then have "[Suc a..<Suc a + Suc n] = Suc a # [Suc (Suc a)..<Suc a + Suc n]"
    by (rule upt_conv_Cons)
  then have u: "[Suc a..<Suc a + Suc n] = Suc a # [Suc (Suc a)..<Suc (Suc a) + n]"
    by (simp only: add_Suc add_Suc_right)
  have "loop_trace url b rd a (Suc (Suc n)) =
      Call Primary url b # Delay (rd * 2 ^ a) # loop_trace url b rd (Suc a) (Suc n)"
    by simp
  also have "loop_trace url b rd (Suc a) (Suc n) =
      Call Primary url b #
      concat (map (\<lambda>k. [Delay (rd * 2 ^ (k - 1)), Call Primary url b])
        [Suc (Suc a)..<Suc (Suc a) + n])"
    by (rule Suc.IH)
  finally show ?case by (simp only: u list.map concat.simps append.simps diff_Suc_1)
qed

lemma loop_trace_backoff:
  "loop_trace url b rd 0 (Suc retries) = backoff_schedule url b rd retries"
  by (simp only: loop_trace_schedule backoff_schedule_def One_nat_def add_Suc add_0)

lemma backoff_schedule_calls:
  "length (filter is_primary_call (backoff_schedule url b rd retries)) = Suc retries"
proof -
  have "length (filter is_primary_call
      (concat (map (\<lambda>k. [Delay (rd * 2 ^ (k - 1)), Call Primary url b]) ks))) = length ks" for ks
    by (induction ks) auto
  then show ?thesis by (simp add: backoff_schedule_def del: upt_Suc)
qed

lemma loop_trace_calls:
  "length (filter is_primary_call (loop_trace url b rd a n)) = n"
  by (induction n arbitrary: a) auto

lemma try_fallback_fails:
  assumes "always_fails P m"
  shows "\<exists>w'. try_fallback P opts m w = (Completed, w') \<and> trace w' = trace w @ fallback_events m"
proof (cases "m_fallbackUrl m")
  case None
  then show ?thesis by (simp add: try_fallback_def fallback_events_def)
next
  case (Some fu)
  have f: "attempt_fails m (transport P (calls_made w) fu (m_body m))"
    using assms by (simp add: always_fails_def)
  show ?thesis
  proof (cases "fu = []")
    case True
    with Some show ?thesis by (simp add: try_fallback_def fallback_events_def)
  next
    case False
    with Some f show ?thesis
      by (auto simp add: try_fallback_def fallback_events_def global_fetch_def attempt_fails_def
          unreadable_def fallback_catch_def is_Error_iff
          split: fetch_outcome.splits sum.splits)
  qed
qed

lemma fetch_all_fail:
  assumes "always_fails P (merge d opts)"
  shows "\<exists>w'. fetch P d url opts w =
      (Resolved \<lparr>data = m_fallbackData (merge d opts),
                 error = lastError (record_failures (primary_outcomes P url (m_body (merge d opts))
                    (calls_made w) (nat (m_retryCount (merge d opts) + 1))) no_locals),
                 status = lastStatus (record_failures (primary_outcomes P url (m_body (merge d opts))
                    (calls_made w) (nat (m_retryCount (merge d opts) + 1))) no_locals),
                 headers = lastHeaders (record_failures (primary_outcomes P url (m_body (merge d opts))
                    (calls_made w) (nat (m_retryCount (merge d opts) + 1))) no_locals)\<rparr>, w')
    \<and> trace w' = trace w @ loop_trace url (m_body (merge d opts)) (m_retryDelay (merge d opts)) 0
                     (nat (m_retryCount (merge d opts) + 1))
                 @ fallback_events (merge d opts)"
proof -
  let ?m = "merge d opts"
  let ?n = "nat (m_retryCount ?m + 1)"
  let ?L = "record_failures (primary_outcomes P url (m_body ?m) (calls_made w) ?n) no_locals"
  have "nat (m_retryCount ?m + 1 - int 0) = ?n" by simp
  from fetch_loop_all_fail[OF assms this, of url opts no_locals w]
  obtain w1 where loop: "fetch_loop P url opts ?m 0 no_locals w = (Completed, ?L, w1)"
    and t1: "trace w1 = trace w @ loop_trace url (m_body ?m) (m_retryDelay ?m) 0 ?n"
    by blast
  from try_fallback_fails[OF assms, of opts w1]
  obtain w2 where fb: "try_fallback P opts ?m w1 = (Completed, w2)"
    and t2: "trace w2 = trace w1 @ fallback_events ?m"
    by blast
  have "fetch P d url opts w =
      (Resolved \<lparr>data = m_fallbackData ?m, error = lastError ?L, status = lastStatus ?L,
                 headers = lastHeaders ?L\<rparr>, w2)"
    using loop fb by (simp add: fetch_def Let_def no_locals_def[symmetric] split: option.splits)
  then show ?thesis using t1 t2 by simp
qed

lemma lastError_record_failure [simp]: "lastError (record_failure out l) = failure_of out"
  by (simp add: record_failure_def failure_of_def split: fetch_outcome.splits)

lemma lastError_record_failures:
  "lastError (record_failures outs l) = (if outs = [] then lastError l else failure_of (last outs))"
  by (induction outs arbitrary: l) auto

lemma lastStatus_record_failures:
  "lastStatus (record_failures outs l) =
     (case last_response outs of Some r \<Rightarrow> Some (resp_status r) | None \<Rightarrow> lastStatus l)"
  by (induction outs arbitrary: l)
     (auto simp add: record_failure_def split: option.splits fetch_outcome.splits)

lemma lastHeaders_record_failures:
  "lastHeaders (record_failures outs l) =
     (case last_response outs of Some r \<Rightarrow> Some (resp_headers r) | None \<Rightarrow> lastHeaders l)"
  by (induction outs arbitrary: l)
     (auto simp add: record_failure_def split: option.splits fetch_outcome.splits)

lemma last_primary_outcomes:
  "last (primary_outcomes P url b first (Suc n)) = transport P (first + n) url b"
  by (simp add: primary_outcomes_def)

lemma primary_outcomes_not_Nil: "primary_outcomes P url b first (Suc n) \<noteq> []"
  by (simp add: primary_outcomes_def)

lemma failure_of_failing: "attempt_fails m out \<Longrightarrow> failure_of out \<noteq> None"
  by (auto simp add: attempt_fails_def unreadable_def failure_of_def is_Error_iff
      split: fetch_outcome.splits sum.splits if_splits)

text \<open>
  Claim C1. When every call of the transport fails, \<open>fetch\<close> makes
  \<open>retryCount + 1\<close> calls of the primary url (none when \<open>retryCount\<close> is below 0) and
  only then the call of the fallback url, if there is one. For \<open>retryCount\<close> from 0 on,
  what it does is the backoff schedule: the first call, then before the k-th retry,
  \<open>k = 1, ..., retryCount\<close>, a delay of \<open>retryDelay * 2 ^ (k - 1)\<close>.
\<close>

theorem failing_request_is_retried_with_backoff:
  assumes "always_fails P (merge d opts)"
  shows "\<exists>evs. trace (snd (fetch P d url opts w)) = trace w @ evs @ fallback_events (merge d opts)
           \<and> int (length (filter is_primary_call (evs @ fallback_events (merge d opts))))
               = max 0 (m_retryCount (merge d opts) + 1)
           \<and> (0 \<le> m_retryCount (merge d opts) \<longrightarrow>
                evs = backoff_schedule url (m_body (merge d opts)) (m_retryDelay (merge d opts))
                        (nat (m_retryCount (merge d opts))))"
proof -
  let ?m = "merge d opts"
  let ?evs = "loop_trace url (m_body ?m) (m_retryDelay ?m) 0 (nat (m_retryCount ?m + 1))"
  from fetch_all_fail[OF assms, of url w]
  have a: "trace (snd (fetch P d url opts w)) = trace w @ ?evs @ fallback_events ?m"
    by auto
  have "filter is_primary_call (fallback_events ?m) = []"
    by (simp add: fallback_events_def split: option.splits)
  then have b: "int (length (filter is_primary_call (?evs @ fallback_events ?m)))
      = max 0 (m_retryCount ?m + 1)"
    by (simp add: loop_trace_calls)
  have c: "0 \<le> m_retryCount ?m \<longrightarrow>
      ?evs = backoff_schedule url (m_body ?m) (m_retryDelay ?m) (nat (m_retryCount ?m))"
  proof
    assume "0 \<le> m_retryCount ?m"
    then have "nat (m_retryCount ?m + 1) = Suc (nat (m_retryCount ?m))" by simp
    then show "?evs = backoff_schedule url (m_body ?m) (m_retryDelay ?m) (nat (m_retryCount ?m))"
      by (simp only: loop_trace_backoff)
  qed
  from a b c show ?thesis by blast
qed

lemma rejecting_always_fails: "always_fails rejecting_platform m"
  by (simp add: always_fails_def attempt_fails_def rejecting_platform_def)

lemma flaky_always_fails: "always_fails flaky_platform m"
  by (simp add: always_fails_def attempt_fails_def flaky_platform_def ok_def)

lemma sched2: "backoff_schedule u b 1000 2 =
   [Call Primary u b, Delay 1000, Call Primary u b, Delay 2000, Call Primary u b]"
  by (simp add: backoff_schedule_def upt_conv_Cons)

lemma merged_samples:
  "merge defaultOptions retry_twice =
     \<lparr>m_retryCount = 2, m_retryDelay = 1000, m_timeout = 10000, m_fallbackData = None,
      m_fallbackUrl = None, m_conflictResolution = Some Timestamp, m_body = None\<rparr>"
  "merge defaultOptions retry_once =
     \<lparr>m_retryCount = 1, m_retryDelay = 1000, m_timeout = 10000, m_fallbackData = None,
      m_fallbackUrl = None, m_conflictResolution = Some Timestamp, m_body = None\<rparr>"
  "merge defaultOptions no_retry =
     \<lparr>m_retryCount = 0, m_retryDelay = 1000, m_timeout = 10000, m_fallbackData = None,
      m_fallbackUrl = None, m_conflictResolution = Some Timestamp, m_body = None\<rparr>"
  "merge defaultOptions no_options =
     \<lparr>m_retryCount = 3, m_retryDelay = 1000, m_timeout = 10000, m_fallbackData = None,
      m_fallbackUrl = None, m_conflictResolution = Some Timestamp, m_body = None\<rparr>"
  "merge defaultOptions with_fallback_data =
     \<lparr>m_retryCount = 3, m_retryDelay = 1000, m_timeout = 10000,
      m_fallbackData = Some fallback_payload,
      m_fallbackUrl = None, m_conflictResolution = Some Timestamp, m_body = None\<rparr>"
  "merge defaultOptions with_client_body =
     \<lparr>m_retryCount = 3, m_retryDelay = 1000, m_timeout = 10000, m_fallbackData = None,
      m_fallbackUrl = None, m_conflictResolution = Some Timestamp, m_body = Some client_body\<rparr>"
  "merge defaultOptions with_broken_body =
     \<lparr>m_retryCount = 0, m_retryDelay = 1000, m_timeout = 10000, m_fallbackData = None,
      m_fallbackUrl = None, m_conflictResolution = Some Timestamp, m_body = Some broken_body\<rparr>"
  by (simp_all add: merge_def defaultOptions_def retry_twice_def retry_once_def no_options_def
      no_retry_def with_fallback_data_def with_client_body_def with_broken_body_def)

theorem failing_request_is_retried_with_backoff_witness:
  "always_fails rejecting_platform (merge defaultOptions retry_twice)
   \<and> 0 \<le> m_retryCount (merge defaultOptions retry_twice)
   \<and> trace (snd (fetch rejecting_platform defaultOptions test_url retry_twice fresh_world)) =
       [Call Primary test_url None, Delay 1000, Call Primary test_url None, Delay 2000,
        Call Primary test_url None]
   \<and> calls_made (snd (fetch rejecting_platform defaultOptions test_url retry_twice fresh_world)) = 3"
proof -
  have rc: "0 \<le> m_retryCount (merge defaultOptions retry_twice)"
    by (simp add: merged_samples)
  from failing_request_is_retried_with_backoff [OF rejecting_always_fails,
      where d = defaultOptions and opts = retry_twice and url = test_url and w = fresh_world]
  obtain evs where
    t: "trace (snd (fetch rejecting_platform defaultOptions test_url retry_twice fresh_world))
          = trace fresh_world @ evs @ fallback_events (merge defaultOptions retry_twice)"
    and e: "0 \<le> m_retryCount (merge defaultOptions retry_twice) \<longrightarrow>
          evs = backoff_schedule test_url (m_body (merge defaultOptions retry_twice))
                  (m_retryDelay (merge defaultOptions retry_twice))
                  (nat (m_retryCount (merge defaultOptions retry_twice)))"
    by (elim exE conjE)
  from e rc have "evs = backoff_schedule test_url None 1000 2"
    by (simp add: merged_samples)
  with t have "trace (snd (fetch rejecting_platform defaultOptions test_url retry_twice fresh_world)) =
       [Call Primary test_url None, Delay 1000, Call Primary test_url None, Delay 2000,
        Call Primary test_url None]"
    by (simp add: merged_samples sched2 fallback_events_def fresh_world_def)
  then show ?thesis using rc rejecting_always_fails by (simp add: calls_made_def)
qed

lemma merge_fallbackData: "fallbackData opts = Some D \<Longrightarrow> m_fallbackData (merge d opts) = Some D"
  by (simp add: merge_def)


lemma flaky_run:
  "fst (fetch flaky_platform defaultOptions test_url retry_once fresh_world) =
     Resolved \<lparr>data = None, error = Some (JSErrorObject network_error), status = Some 500,
               headers = Some [(''x-attempt'', ''first'')]\<rparr>"
  by (simp add: fetch_def fetch_loop.simps try_block_def try_fallback_def catch_block_def
      global_fetch_def flaky_platform_def
      merged_samples ok_def calls_made_def fresh_world_def Let_def http_error_def delay_def)

lemma flaky_last_attempt:
  "transport flaky_platform (Suc n) u b = Rejects (JSErrorObject network_error)"
  by (simp add: flaky_platform_def)

text \<open>
  Claim C3, as stated, has the status of the result come from the last attempt. It need
  not: when the first attempt is answered with status 500 and the retry is rejected, the
  result carries the error of the retry and the status and headers of the first attempt.
\<close>

theorem status_may_come_from_earlier_attempt:
  "\<not> (\<forall>P d url opts w r w'.
        always_fails P (merge d opts) \<and> 0 \<le> m_retryCount (merge d opts)
        \<and> fetch P d url opts w = (Resolved r, w') \<longrightarrow>
        status r = outcome_status (transport P (calls_made w + nat (m_retryCount (merge d opts)))
                     url (m_body (merge d opts))))"
proof
  assume H: "\<forall>P d url opts w r w'.
        always_fails P (merge d opts) \<and> 0 \<le> m_retryCount (merge d opts)
        \<and> fetch P d url opts w = (Resolved r, w') \<longrightarrow>
        status r = outcome_status (transport P (calls_made w + nat (m_retryCount (merge d opts)))
                     url (m_body (merge d opts)))"
  let ?r = "\<lparr>data = None, error = Some (JSErrorObject network_error), status = Some 500,
               headers = Some [(''x-attempt'', ''first'')]\<rparr>"
  obtain w' where f: "fetch flaky_platform defaultOptions test_url retry_once fresh_world
      = (Resolved ?r, w')"
    using flaky_run by (cases "fetch flaky_platform defaultOptions test_url retry_once fresh_world") auto
  have rc: "0 \<le> m_retryCount (merge defaultOptions retry_once)" by (simp add: merged_samples)
  from H flaky_always_fails rc f
  have "status ?r = outcome_status (transport flaky_platform
      (calls_made fresh_world + nat (m_retryCount (merge defaultOptions retry_once)))
      test_url (m_body (merge defaultOptions retry_once)))"
    by blast
  then show False
    by (simp add: merged_samples flaky_last_attempt outcome_status_def)
qed

text \<open>
  Claim C3, amended. When every call of the transport fails and \<open>retryCount\<close> is 0 or
  more, the result has the configured fallback data as \<open>data\<close> (none when none is
  configured) together with the failure of the last primary attempt as \<open>error\<close>; its
  \<open>status\<close> and \<open>headers\<close> are those of the most recent primary attempt that received
  a response, and are absent when none did.
\<close>

theorem all_attempts_fail_result:
  assumes "always_fails P (merge d opts)" and "0 \<le> m_retryCount (merge d opts)"
  shows "\<exists>w'. fetch P d url opts w =
      (Resolved \<lparr>data = m_fallbackData (merge d opts),
                 error = failure_of (transport P (calls_made w + nat (m_retryCount (merge d opts)))
                            url (m_body (merge d opts))),
                 status = map_option resp_status (last_response
                            (primary_outcomes P url (m_body (merge d opts)) (calls_made w)
                               (Suc (nat (m_retryCount (merge d opts)))))),
                 headers = map_option resp_headers (last_response
                            (primary_outcomes P url (m_body (merge d opts)) (calls_made w)
                               (Suc (nat (m_retryCount (merge d opts))))))\<rparr>, w')
     \<and> failure_of (transport P (calls_made w + nat (m_retryCount (merge d opts)))
                            url (m_body (merge d opts))) \<noteq> None
     \<and> (\<forall>D. fallbackData opts = Some D \<longrightarrow> m_fallbackData (merge d opts) = Some D)"
proof -
  let ?m = "merge d opts"
  let ?k = "nat (m_retryCount ?m)"
  let ?outs = "primary_outcomes P url (m_body ?m) (calls_made w) (Suc ?k)"
  have n: "nat (m_retryCount ?m + 1) = Suc ?k" using assms(2) by simp
  have e: "lastError (record_failures ?outs no_locals)
      = failure_of (transport P (calls_made w + ?k) url (m_body ?m))"
    by (simp only: lastError_record_failures primary_outcomes_not_Nil last_primary_outcomes if_False)
  have st: "lastStatus (record_failures ?outs no_locals) = map_option resp_status (last_response ?outs)"
    by (simp add: lastStatus_record_failures no_locals_def split: option.splits)
  have hd: "lastHeaders (record_failures ?outs no_locals) = map_option resp_headers (last_response ?outs)"
    by (simp add: lastHeaders_record_failures no_locals_def split: option.splits)
  have "attempt_fails ?m (transport P (calls_made w + ?k) url (m_body ?m))"
    using assms(1) by (simp add: always_fails_def)
  then have ne: "failure_of (transport P (calls_made w + ?k) url (m_body ?m)) \<noteq> None"
    by (rule failure_of_failing)
  from fetch_all_fail[OF assms(1), of url w]
  obtain w' where "fetch P d url opts w =
      (Resolved \<lparr>data = m_fallbackData ?m,
                 error = lastError (record_failures (primary_outcomes P url (m_body ?m)
                    (calls_made w) (nat (m_retryCount ?m + 1))) no_locals),
                 status = lastStatus (record_failures (primary_outcomes P url (m_body ?m)
                    (calls_made w) (nat (m_retryCount ?m + 1))) no_locals),
                 headers = lastHeaders (record_failures (primary_outcomes P url (m_body ?m)
                    (calls_made w) (nat (m_retryCount ?m + 1))) no_locals)\<rparr>, w')"
    by blast
  then have "fetch P d url opts w =
      (Resolved \<lparr>data = m_fallbackData ?m,
                 error = failure_of (transport P (calls_made w + ?k) url (m_body ?m)),
                 status = map_option resp_status (last_response ?outs),
                 headers = map_option resp_headers (last_response ?outs)\<rparr>, w')"
    by (simp only: n e st hd)
  with ne show ?thesis by (auto simp add: merge_fallbackData)
qed

lemma last_response_rejects: "last_response (map (\<lambda>k. Rejects v) ks) = None"
  by (induction ks) auto

lemma rejecting_outcomes:
  "primary_outcomes rejecting_platform u b first n
     = map (\<lambda>k. Rejects (JSErrorObject network_error)) [0..<n]"
  by (simp add: primary_outcomes_def rejecting_platform_def)

theorem all_attempts_fail_result_witness:
  "always_fails rejecting_platform (merge defaultOptions with_fallback_data)
   \<and> 0 \<le> m_retryCount (merge defaultOptions with_fallback_data)
   \<and> fallbackData with_fallback_data = Some fallback_payload
   \<and> (\<exists>w'. fetch rejecting_platform defaultOptions test_url with_fallback_data fresh_world =
         (Resolved \<lparr>data = Some fallback_payload, error = Some (JSErrorObject network_error),
                    status = None, headers = None\<rparr>, w'))"
proof -
  have rc: "0 \<le> m_retryCount (merge defaultOptions with_fallback_data)"
    by (simp add: merged_samples)
  have fd: "fallbackData with_fallback_data = Some fallback_payload"
    by (simp add: with_fallback_data_def)
  have mfd: "m_fallbackData (merge defaultOptions with_fallback_data) = Some fallback_payload"
    by (simp add: merged_samples)
  have fo: "failure_of (transport rejecting_platform n u b) = Some (JSErrorObject network_error)"
    for n u b
    by (simp add: failure_of_def rejecting_platform_def)
  from all_attempts_fail_result [OF rejecting_always_fails rc, of test_url fresh_world]
  have "\<exists>w'. fetch rejecting_platform defaultOptions test_url with_fallback_data fresh_world =
         (Resolved \<lparr>data = Some fallback_payload, error = Some (JSErrorObject network_error),
                    status = None, headers = None\<rparr>, w')"
    by (simp only: mfd fo rejecting_outcomes last_response_rejects option.map) blast
  with rejecting_always_fails rc fd show ?thesis by blast
qed

text \<open>
  When every rejection is an \<open>Error\<close>, nothing that \<open>fetch\<close> catches makes \<open>log\<close>
  throw: \<open>fetch\<close> resolves, and when at least one attempt is made a result without
  \<open>error\<close> carries \<open>data\<close>.
\<close>

lemma rejects_with_ErrorsD:
  "rejects_with_Errors P \<Longrightarrow> transport P n u b = Rejects v \<Longrightarrow> is_Error v"
  "rejects_with_Errors P \<Longrightarrow> transport P n u b = Responds r \<Longrightarrow> resp_json r = Inl v \<Longrightarrow> is_Error v"
proof -
  assume a: "rejects_with_Errors P"
  then have r: "rejection_is_Error (transport P n u b)" by (simp add: rejects_with_Errors_def)
  show "transport P n u b = Rejects v \<Longrightarrow> is_Error v"
    using r by (simp add: rejection_is_Error_def)
  show "transport P n u b = Responds r \<Longrightarrow> resp_json r = Inl v \<Longrightarrow> is_Error v"
    using r by (simp add: rejection_is_Error_def)
qed

lemma conflict_catch_Error:
  "conflict_catch url m (JSErrorObject e) w
     = (Inr None, logged e ''safe-fetch-conflict'' (ConflictInfo url m) w)"
  by (simp add: conflict_catch_def)

lemma handleConflict_throws_Error:
  assumes "rejects_with_Errors P" and "\<forall>v. resp_json response = Inl v \<longrightarrow> is_Error v"
    and "handleConflict P url m response w = (Inl v, w')"
  shows "is_Error v"
proof (cases "resp_json response")
  case (Inl u)
  with assms(2) obtain e where "u = JSErrorObject e" by (auto simp add: is_Error_iff)
  with Inl assms(3) show ?thesis by (simp add: handleConflict_def conflict_catch_Error)
next
  case (Inr serverData)
  show ?thesis
  proof (cases "parse_client_body P m")
    case (Inl e)
    with Inr assms(3) show ?thesis by (simp add: handleConflict_def conflict_catch_Error)
  next
    case cd: (Inr clientData)
    show ?thesis
    proof (cases "m_conflictResolution m")
      case None
      with Inr cd assms(3) show ?thesis by (simp add: handleConflict_def)
    next
      case (Some strategy)
      show ?thesis
      proof (cases strategy)
        case ServerWins
        with Some Inr cd assms(3) show ?thesis by (simp add: handleConflict_def)
      next
        case Timestamp
        with Some Inr cd assms(3) show ?thesis
          by (cases "resolve_timestamp P clientData serverData")
             (simp_all add: handleConflict_def conflict_catch_Error)
      next
        case ClientWins
        let ?b = "map_option (JSON_stringify P) clientData"
        show ?thesis
        proof (cases "transport P (calls_made w) url ?b")
          case (Rejects u)
          with rejects_with_ErrorsD(1)[OF assms(1) Rejects]
          obtain e where "u = JSErrorObject e" by (auto simp add: is_Error_iff)
          with Rejects ClientWins Some Inr cd assms(3) show ?thesis
            by (simp add: handleConflict_def global_fetch_def conflict_catch_Error)
        next
          case (Responds clientResponse)
          show ?thesis
          proof (cases "resp_json clientResponse")
            case (Inl u)
            from rejects_with_ErrorsD(2)[OF assms(1) Responds Inl] have "is_Error u" .
            with Inl Responds ClientWins Some Inr cd assms(3) show ?thesis
              by (simp add: handleConflict_def global_fetch_def split: if_splits)
          next
            case body: (Inr dd)
            with Responds ClientWins Some Inr cd assms(3) show ?thesis
              by (simp add: handleConflict_def global_fetch_def split: if_splits)
          qed
        qed
      qed
    qed
  qed
qed

lemma try_block_shape:
  assumes "rejects_with_Errors P" and "try_block P url m l w = (c, l1, w1)"
  shows "case c of
           Returned r \<Rightarrow> data r \<noteq> None \<and> error r = None
         | Threw v \<Rightarrow> is_Error v
         | Completed \<Rightarrow> lastError l1 \<noteq> None"
proof (cases "transport P (calls_made w) url (m_body m)")
  case (Rejects v)
  from rejects_with_ErrorsD(1)[OF assms(1) Rejects] have "is_Error v" .
  with Rejects assms(2) show ?thesis
    by (auto simp add: try_block_def global_fetch_def)
next
  case (Responds response)
  have je: "\<forall>v. resp_json response = Inl v \<longrightarrow> is_Error v"
    using rejects_with_ErrorsD(2)[OF assms(1) Responds] by blast
  let ?w1 = "w\<lparr>trace := trace w @ [Call Primary url (m_body m)]\<rparr>"
  show ?thesis
  proof (cases "ok response")
    case True
    with Responds assms(2) je show ?thesis
      by (auto simp add: try_block_def global_fetch_def Let_def split: sum.splits)
  next
    case False
    show ?thesis
    proof (cases "resp_status response = 409 \<and> m_conflictResolution m \<noteq> None")
      case no: False
      with False Responds assms(2) show ?thesis
        by (auto simp add: try_block_def global_fetch_def Let_def)
    next
      case True
      obtain res w2 where hc: "handleConflict P url m response ?w1 = (res, w2)"
        by (cases "handleConflict P url m response ?w1") auto
      show ?thesis
      proof (cases res)
        case (Inl v)
        from handleConflict_throws_Error[OF assms(1) je hc[unfolded Inl]] have "is_Error v" .
        with Inl hc True False Responds assms(2) show ?thesis
          by (auto simp add: try_block_def global_fetch_def Let_def)
      next
        case (Inr val)
        with hc True False Responds assms(2) show ?thesis
          by (cases val) (auto simp add: try_block_def global_fetch_def Let_def)
      qed
    qed
  qed
qed

lemma fetch_loop_shape:
  assumes "rejects_with_Errors P"
  shows "nat (m_retryCount m + 1 - int a) = n \<Longrightarrow>
     (case fetch_loop P url opts m a l w of
        (Returned r, l', w') \<Rightarrow> data r \<noteq> None \<and> error r = None
      | (Threw v, l', w') \<Rightarrow> False
      | (Completed, l', w') \<Rightarrow>
          (int a \<le> m_retryCount m \<or> lastError l \<noteq> None) \<longrightarrow> lastError l' \<noteq> None)"
proof (induction n arbitrary: a l w)
  case 0
  then have "\<not> int a \<le> m_retryCount m" by simp
  then show ?case by (simp add: fetch_loop.simps)
next
  case (Suc n)
  then have le: "int a \<le> m_retryCount m" by simp
  have n: "nat (m_retryCount m + 1 - int (Suc a)) = n" using Suc.prems by simp
  obtain c l1 w1 where tb: "try_block P url m l w = (c, l1, w1)"
    by (cases "try_block P url m l w") auto
  note sh = try_block_shape[OF assms tb]
  show ?case
  proof (cases c)
    case (Returned r)
    then show ?thesis using le tb sh by (subst fetch_loop.simps) simp
  next
    case (Threw v)
    with sh obtain e where v: "v = JSErrorObject e" by (auto simp add: is_Error_iff)
    let ?w2 = "logged e ''safe-fetch'' (RequestInfo url (Some a) opts) w1"
    have step: "fetch_loop P url opts m a l w =
        fetch_loop P url opts m (Suc a) (l1\<lparr>lastError := Some v\<rparr>) (backoff m a ?w2)"
      using le tb Threw v
      by (subst fetch_loop.simps) (simp add: catch_block_def backoff_def delay_def)
    from Suc.IH[OF n, of "l1\<lparr>lastError := Some v\<rparr>" "backoff m a ?w2"]
    show ?thesis unfolding step by (auto split: prod.splits completion.splits)
  next
    case Completed
    have step: "fetch_loop P url opts m a l w = fetch_loop P url opts m (Suc a) l1 (backoff m a w1)"
      using le tb Completed by (subst fetch_loop.simps) (simp add: backoff_def delay_def)
    from Suc.IH[OF n, of l1 "backoff m a w1"] sh Completed
    show ?thesis unfolding step by (auto split: prod.splits completion.splits)
  qed
qed

lemma try_fallback_shape:
  assumes "rejects_with_Errors P"
  shows "case try_fallback P opts m w of
           (Returned r, w') \<Rightarrow> data r \<noteq> None \<and> error r = None
         | (Threw v, w') \<Rightarrow> False
         | (Completed, w') \<Rightarrow> True"
proof (cases "m_fallbackUrl m")
  case None
  then show ?thesis by (simp add: try_fallback_def)
next
  case (Some fu)
  show ?thesis
  proof (cases "transport P (calls_made w) fu (m_body m)")
    case (Rejects v)
    from rejects_with_ErrorsD(1)[OF assms Rejects]
    obtain e where "v = JSErrorObject e" by (auto simp add: is_Error_iff)
    with Rejects Some show ?thesis
      by (simp add: try_fallback_def global_fetch_def fallback_catch_def)
  next
    case (Responds response)
    show ?thesis
    proof (cases "resp_json response")
      case (Inl v)
      from rejects_with_ErrorsD(2)[OF assms Responds Inl]
      obtain e where "v = JSErrorObject e" by (auto simp add: is_Error_iff)
      with Inl Responds Some show ?thesis
        by (simp add: try_fallback_def global_fetch_def fallback_catch_def)
    next
      case (Inr dd)
      with Responds Some show ?thesis
        by (simp add: try_fallback_def global_fetch_def)
    qed
  qed
qed

lemma fetch_resolves_when_rejections_are_Errors:
  assumes "rejects_with_Errors P"
  shows "\<exists>r w'. fetch P d url opts w = (Resolved r, w')
     \<and> (0 \<le> m_retryCount (merge d opts) \<longrightarrow> error r = None \<longrightarrow> data r \<noteq> None)"
proof -
  let ?m = "merge d opts"
  obtain res l w1 where loop: "fetch_loop P url opts ?m 0 no_locals w = (res, l, w1)"
    by (cases "fetch_loop P url opts ?m 0 no_locals w") auto
  have sh: "case (res, l, w1) of
        (Returned r, l', w') \<Rightarrow> data r \<noteq> None \<and> error r = None
      | (Threw v, l', w') \<Rightarrow> False
      | (Completed, l', w') \<Rightarrow>
          (int 0 \<le> m_retryCount ?m \<or> lastError no_locals \<noteq> None) \<longrightarrow> lastError l' \<noteq> None"
    using fetch_loop_shape[OF assms, where m="?m" and a=0 and url=url and opts=opts
        and l=no_locals and w=w, OF refl] loop by simp
  show ?thesis
  proof (cases res)
    case (Returned r)
    with loop sh show ?thesis by (simp add: fetch_def Let_def no_locals_def[symmetric])
  next
    case (Threw v)
    with sh show ?thesis by simp
  next
    case Completed
    obtain fr w2 where fb: "try_fallback P opts ?m w1 = (fr, w2)"
      by (cases "try_fallback P opts ?m w1") auto
    note fs = try_fallback_shape[OF assms, of opts ?m w1]
    show ?thesis
    proof (cases fr)
      case (Returned r)
      with fb fs loop Completed show ?thesis
        by (simp add: fetch_def Let_def no_locals_def[symmetric])
    next
      case (Threw v)
      with fb fs show ?thesis by simp
    next
      case fin: Completed
      with fb loop Completed sh show ?thesis
        by (auto simp add: fetch_def Let_def no_locals_def[symmetric] split: option.splits)
    qed
  qed
qed

lemma ok_run:
  "fetch ok_platform defaultOptions test_url no_options fresh_world =
     (Resolved \<lparr>data = Some test_payload, error = None, status = Some 200, headers = Some []\<rparr>,
      \<lparr>trace = [Call Primary test_url None], logger = initialLogger\<rparr>)"
  by (simp add: fetch_def fetch_loop.simps try_block_def global_fetch_def ok_platform_def
      merged_samples ok_def calls_made_def fresh_world_def Let_def)


lemma resolve_timestamp_Some:
  "resolve_timestamp P (Some c) s =
     (if all_truthy c s
      then (case date_error P c s of
              Some t \<Rightarrow> Inl t
            | None \<Rightarrow> Inr (if client_is_newer P c s then c else s))
      else Inr s)"
  by (auto simp add: resolve_timestamp_def all_truthy_def client_is_newer_def date_error_def
      date_gt_def truthy_opt_def split: option.splits sum.splits)

lemma handleConflict_timestamp:
  assumes "m_conflictResolution m = Some Timestamp" and "resp_json response = Inr s"
    and "parse_client_body P m = Inr cd"
  shows "handleConflict P url m response w =
     (case resolve_timestamp P cd s of
        Inl t \<Rightarrow> (Inr None, logged t ''safe-fetch-conflict'' (ConflictInfo url m) w)
      | Inr v \<Rightarrow> (Inr (Some v), w))"
  using assms by (simp add: handleConflict_def conflict_catch_Error split: sum.splits)

lemma handleConflict_unreadable_server:
  assumes "resp_json response = Inl (JSErrorObject t)"
  shows "handleConflict P url m response w =
           (Inr None, logged t ''safe-fetch-conflict'' (ConflictInfo url m) w)"
  using assms by (simp add: handleConflict_def conflict_catch_Error)

lemma handleConflict_unparseable_client:
  assumes "resp_json response = Inr s" and "parse_client_body P m = Inl t"
  shows "handleConflict P url m response w =
           (Inr None, logged t ''safe-fetch-conflict'' (ConflictInfo url m) w)"
  using assms by (simp add: handleConflict_def conflict_catch_Error)

lemma not_ok_409: "resp_status response = 409 \<Longrightarrow> \<not> ok response"
  by (simp add: ok_def)

lemma conflict_resolved_returns:
  assumes "int a \<le> m_retryCount m"
    and "transport P (calls_made w) url (m_body m) = Responds response"
    and "resp_status response = 409"
    and "m_conflictResolution m \<noteq> None"
    and "handleConflict P url m response (w\<lparr>trace := trace w @ [Call Primary url (m_body m)]\<rparr>)
           = (Inr (Some v), w2)"
  shows "fetch_loop P url opts m a l w =
     (Returned \<lparr>data = Some v, error = None, status = Some 200,
                headers = Some (resp_headers response)\<rparr>,
      l\<lparr>lastStatus := Some 409, lastHeaders := Some (resp_headers response)\<rparr>,
      w2)"
proof -
  have "try_block P url m l w =
      (Returned \<lparr>data = Some v, error = None, status = Some 200,
                 headers = Some (resp_headers response)\<rparr>,
       l\<lparr>lastStatus := Some 409, lastHeaders := Some (resp_headers response)\<rparr>,
       w2)"
    using assms(2-5) not_ok_409[OF assms(3)]
    by (simp add: try_block_def global_fetch_def Let_def)
  then show ?thesis using assms(1) by (subst fetch_loop.simps) simp
qed

lemma conflict_unresolved_retries:
  assumes "int a \<le> m_retryCount m"
    and "transport P (calls_made w) url (m_body m) = Responds response"
    and "resp_status response = 409"
    and "m_conflictResolution m \<noteq> None"
    and "handleConflict P url m response (w\<lparr>trace := trace w @ [Call Primary url (m_body m)]\<rparr>)
           = (Inr None, w2)"
  shows "fetch_loop P url opts m a l w =
     fetch_loop P url opts m (Suc a)
       (l\<lparr>lastStatus := Some 409, lastHeaders := Some (resp_headers response),
          lastError := Some (JSErrorObject (http_error 409))\<rparr>)
       (backoff m a w2)"
proof -
  have "try_block P url m l w =
      (Completed,
       l\<lparr>lastStatus := Some 409, lastHeaders := Some (resp_headers response),
         lastError := Some (JSErrorObject (http_error 409))\<rparr>,
       w2)"
    using assms(2-5) not_ok_409[OF assms(3)]
    by (simp add: try_block_def global_fetch_def Let_def)
  then show ?thesis using assms(1)
    by (subst fetch_loop.simps) (simp add: backoff_def delay_def)
qed

lemma fetch_returns_loop_result:
  assumes "fetch_loop P url opts (merge d opts) 0 no_locals w = (Returned r, l', w')"
  shows "fetch P d url opts w = (Resolved r, w')"
  using assms by (simp add: fetch_def no_locals_def)

text \<open>
  A request whose body carries \<open>updatedAt\<close> 2000, answered with a conflict whose body
  carries \<open>updatedAt\<close> 0: \<open>fetch\<close> resolves with the server's data.
\<close>

lemma epoch_conflict_run:
  "fetch epoch_conflict_platform defaultOptions test_url with_client_body fresh_world =
     (Resolved \<lparr>data = Some epoch_data, error = None, status = Some 200, headers = Some []\<rparr>,
      \<lparr>trace = [Call Primary test_url (Some client_body)], logger = initialLogger\<rparr>)"
  by (simp add: fetch_def fetch_loop.simps try_block_def global_fetch_def handleConflict_def
      parse_client_body_def sample_parse_def resolve_timestamp_def updatedAt_def truthy_opt_def
      epoch_conflict_platform_def merged_samples ok_def calls_made_def fresh_world_def Let_def
      client_body_def client_data_def epoch_data_def)

text \<open>
  Claim C4, as stated: whenever both bodies carry \<open>updatedAt\<close> and the client's is the
  later date, resolution yields the client body. It fails when the server's \<open>updatedAt\<close>
  is the number 0, the epoch: the value is falsy, the comparison is not made, and the
  server body is the result.
\<close>

theorem newer_client_loses_at_epoch:
  "\<not> (\<forall>P c s. client_is_newer P c s \<longrightarrow> resolve_timestamp P (Some c) s = Inr c)"
proof
  assume H: "\<forall>P c s. client_is_newer P c s \<longrightarrow> resolve_timestamp P (Some c) s = Inr c"
  have n: "client_is_newer conflict_platform client_data epoch_data"
    by (simp add: client_is_newer_def updatedAt_def client_data_def epoch_data_def
        conflict_platform_def epoch_ms_def)
  have r: "resolve_timestamp conflict_platform (Some client_data) epoch_data = Inr epoch_data"
    by (simp add: resolve_timestamp_def updatedAt_def client_data_def epoch_data_def
        truthy_opt_def)
  from H n have "resolve_timestamp conflict_platform (Some client_data) epoch_data
      = Inr client_data"
    by blast
  with r show False by (simp add: client_data_def epoch_data_def)
qed

text \<open>
  Claim C4, amended. Under the strategy \<open>timestamp\<close>: when no client body was sent, or
  when one of client data, server data and their \<open>updatedAt\<close> is falsy, the result is
  the server body. Otherwise the two dates are constructed, the client's first; when a
  construction throws there is no result; when none does, the result is the client body
  if both dates are valid and the client's is the later, and the server body if not.
  When the two bodies parse, \<open>handleConflict\<close> yields this result, and when there is
  none it logs the error and yields nothing. When the server body cannot be read, or the
  client body cannot be parsed, it logs the error and yields nothing as well. Whenever
  \<open>handleConflict\<close> yields a value for a response with status 409, the loop returns at
  once with this value as \<open>data\<close>, no \<open>error\<close> and the status 200, and \<open>fetch\<close>
  resolves with this result. Whenever it yields nothing, the attempt has failed: the
  loop goes on to the next round, after the delay if one is due, with the HTTP error of
  status 409 as the last error.
\<close>

theorem timestamp_conflict_resolution:
  "resolve_timestamp P (Some c) s =
      (if all_truthy c s
       then (case date_error P c s of
               Some t \<Rightarrow> Inl t
             | None \<Rightarrow> Inr (if client_is_newer P c s then c else s))
       else Inr s)
   \<and> resolve_timestamp P None s = Inr s
   \<and> (m_conflictResolution m = Some Timestamp \<and> resp_json response = Inr s
        \<and> parse_client_body P m = Inr cd \<and> resolve_timestamp P cd s = Inr v \<longrightarrow>
       handleConflict P url m response w = (Inr (Some v), w))
   \<and> (m_conflictResolution m = Some Timestamp \<and> resp_json response = Inr s
        \<and> parse_client_body P m = Inr cd \<and> resolve_timestamp P cd s = Inl t \<longrightarrow>
       handleConflict P url m response w =
         (Inr None, logged t ''safe-fetch-conflict'' (ConflictInfo url m) w))
   \<and> (resp_json response = Inl (JSErrorObject t) \<longrightarrow>
       handleConflict P url m response w =
         (Inr None, logged t ''safe-fetch-conflict'' (ConflictInfo url m) w))
   \<and> (resp_json response = Inr s \<and> parse_client_body P m = Inl t \<longrightarrow>
       handleConflict P url m response w =
         (Inr None, logged t ''safe-fetch-conflict'' (ConflictInfo url m) w))
   \<and> (int a \<le> m_retryCount m
        \<and> transport P (calls_made w) url (m_body m) = Responds response
        \<and> resp_status response = 409 \<and> m_conflictResolution m \<noteq> None
        \<and> handleConflict P url m response (w\<lparr>trace := trace w @ [Call Primary url (m_body m)]\<rparr>)
             = (Inr (Some v), w2) \<longrightarrow>
       fetch_loop P url opts m a l w =
         (Returned \<lparr>data = Some v, error = None, status = Some 200,
                    headers = Some (resp_headers response)\<rparr>,
          l\<lparr>lastStatus := Some 409, lastHeaders := Some (resp_headers response)\<rparr>, w2))
   \<and> (int a \<le> m_retryCount m
        \<and> transport P (calls_made w) url (m_body m) = Responds response
        \<and> resp_status response = 409 \<and> m_conflictResolution m \<noteq> None
        \<and> handleConflict P url m response (w\<lparr>trace := trace w @ [Call Primary url (m_body m)]\<rparr>)
             = (Inr None, w2) \<longrightarrow>
       fetch_loop P url opts m a l w =
         fetch_loop P url opts m (Suc a)
           (l\<lparr>lastStatus := Some 409, lastHeaders := Some (resp_headers response),
              lastError := Some (JSErrorObject (http_error 409))\<rparr>)
           (backoff m a w2))
   \<and> (fetch_loop P url' opts' (merge d opts') 0 no_locals w0 = (Returned r, l', w') \<longrightarrow>
       fetch P d url' opts' w0 = (Resolved r, w'))"
proof (intro conjI impI)
  show "resolve_timestamp P (Some c) s =
      (if all_truthy c s
       then (case date_error P c s of
               Some t \<Rightarrow> Inl t
             | None \<Rightarrow> Inr (if client_is_newer P c s then c else s))
       else Inr s)"
    by (rule resolve_timestamp_Some)
  show "resolve_timestamp P None s = Inr s"
    by (simp add: resolve_timestamp_def)
next
  assume "m_conflictResolution m = Some Timestamp \<and> resp_json response = Inr s
        \<and> parse_client_body P m = Inr cd \<and> resolve_timestamp P cd s = Inr v"
  then show "handleConflict P url m response w = (Inr (Some v), w)"
    by (simp add: handleConflict_timestamp)
next
  assume "m_conflictResolution m = Some Timestamp \<and> resp_json response = Inr s
        \<and> parse_client_body P m = Inr cd \<and> resolve_timestamp P cd s = Inl t"
  then show "handleConflict P url m response w =
         (Inr None, logged t ''safe-fetch-conflict'' (ConflictInfo url m) w)"
    by (simp add: handleConflict_timestamp)
next
  assume "resp_json response = Inl (JSErrorObject t)"
  then show "handleConflict P url m response w =
         (Inr None, logged t ''safe-fetch-conflict'' (ConflictInfo url m) w)"
    by (rule handleConflict_unreadable_server)
next
  assume "resp_json response = Inr s \<and> parse_client_body P m = Inl t"
  then show "handleConflict P url m response w =
         (Inr None, logged t ''safe-fetch-conflict'' (ConflictInfo url m) w)"
    by (simp add: handleConflict_unparseable_client)
next
  assume "int a \<le> m_retryCount m
        \<and> transport P (calls_made w) url (m_body m) = Responds response
        \<and> resp_status response = 409 \<and> m_conflictResolution m \<noteq> None
        \<and> handleConflict P url m response (w\<lparr>trace := trace w @ [Call Primary url (m_body m)]\<rparr>)
             = (Inr (Some v), w2)"
  then show "fetch_loop P url opts m a l w =
         (Returned \<lparr>data = Some v, error = None, status = Some 200,
                    headers = Some (resp_headers response)\<rparr>,
          l\<lparr>lastStatus := Some 409, lastHeaders := Some (resp_headers response)\<rparr>, w2)"
    by (simp add: conflict_resolved_returns)
next
  assume "int a \<le> m_retryCount m
        \<and> transport P (calls_made w) url (m_body m) = Responds response
        \<and> resp_status response = 409 \<and> m_conflictResolution m \<noteq> None
        \<and> handleConflict P url m response (w\<lparr>trace := trace w @ [Call Primary url (m_body m)]\<rparr>)
             = (Inr None, w2)"
  then show "fetch_loop P url opts m a l w =
         fetch_loop P url opts m (Suc a)
           (l\<lparr>lastStatus := Some 409, lastHeaders := Some (resp_headers response),
              lastError := Some (JSErrorObject (http_error 409))\<rparr>)
           (backoff m a w2)"
    by (simp add: conflict_unresolved_retries)
next
  assume "fetch_loop P url' opts' (merge d opts') 0 no_locals w0 = (Returned r, l', w')"
  then show "fetch P d url' opts' w0 = (Resolved r, w')"
    by (rule fetch_returns_loop_result)
qed

lemma conflict_sample_facts:
  "all_truthy client_data server_data"
  "client_is_newer conflict_platform client_data server_data"
  "date_error conflict_platform client_data server_data = None"
  "transport conflict_platform n u b = Responds conflict_response"
  "resp_status conflict_response = 409"
  "resp_json conflict_response = Inr server_data"
  "resp_headers conflict_response = []"
  "parse_client_body conflict_platform (merge defaultOptions with_client_body) = Inr (Some client_data)"
  "m_conflictResolution (merge defaultOptions with_client_body) = Some Timestamp"
  "m_body (merge defaultOptions with_client_body) = Some client_body"
  "int 0 \<le> m_retryCount (merge defaultOptions with_client_body)"
  by (simp_all add: all_truthy_def client_is_newer_def date_error_def updatedAt_def truthy_opt_def
      client_data_def server_data_def conflict_platform_def epoch_ms_def conflict_response_def
      parse_client_body_def merged_samples sample_parse_def client_body_def)

lemma odd_sample_facts:
  "all_truthy client_data odd_data"
  "date_error odd_conflict_platform client_data odd_data = Some primitive_error"
  "resp_json odd_conflict_response = Inr odd_data"
  "parse_client_body odd_conflict_platform (merge defaultOptions with_client_body)
     = Inr (Some client_data)"
  "resp_json garbled_conflict_response = Inl (JSErrorObject syntax_error)"
  by (simp_all add: all_truthy_def date_error_def updatedAt_def truthy_opt_def
      client_data_def odd_data_def odd_conflict_platform_def epoch_ms_def
      odd_conflict_response_def garbled_conflict_response_def
      parse_client_body_def merged_samples sample_parse_def client_body_def)

lemma broken_sample_facts:
  "parse_client_body conflict_platform (merge defaultOptions with_broken_body) = Inl syntax_error"
  "m_conflictResolution (merge defaultOptions with_broken_body) \<noteq> None"
  "m_body (merge defaultOptions with_broken_body) = Some broken_body"
  "m_retryCount (merge defaultOptions with_broken_body) = 0"
  "m_fallbackUrl (merge defaultOptions with_broken_body) = None"
  "m_fallbackData (merge defaultOptions with_broken_body) = None"
  by (simp_all add: conflict_platform_def parse_client_body_def merged_samples sample_parse_def
      client_body_def broken_body_def)

lemma sample_error_types:
  "determineExceptionType syntax_error = SYNTAX_ERROR"
  "determineExceptionType primitive_error = GENERAL_ERROR"
  by (simp_all add: determineExceptionType_def syntax_error_def primitive_error_def
      str_includes_def sublist_code)

lemma fresh_facts:
  "calls_made fresh_world = 0"
  "trace fresh_world = []"
  "logger fresh_world = initialLogger"
  by (simp_all add: calls_made_def fresh_world_def)

theorem timestamp_conflict_resolution_witness:
  "all_truthy client_data server_data
   \<and> client_is_newer conflict_platform client_data server_data
   \<and> resolve_timestamp conflict_platform (Some client_data) server_data = Inr client_data
   \<and> fetch conflict_platform defaultOptions test_url with_client_body fresh_world =
       (Resolved \<lparr>data = Some client_data, error = None, status = Some 200,
                  headers = Some []\<rparr>,
        \<lparr>trace = [Call Primary test_url (Some client_body)], logger = initialLogger\<rparr>)
   \<and> all_truthy client_data odd_data
   \<and> date_error odd_conflict_platform client_data odd_data = Some primitive_error
   \<and> resolve_timestamp odd_conflict_platform (Some client_data) odd_data = Inl primitive_error
   \<and> handleConflict odd_conflict_platform test_url (merge defaultOptions with_client_body)
        odd_conflict_response fresh_world =
       (Inr None,
        \<lparr>trace = [],
         logger = \<lparr>logEntries =
                      [\<lparr>entry_id = 0, entry_error = primitive_error,
                        entry_type = GENERAL_ERROR, entry_component = ''safe-fetch-conflict'',
                        entry_extra =
                          ConflictInfo test_url (merge defaultOptions with_client_body)\<rparr>],
                   maxLogEntries = 1000, uuids_drawn = 1\<rparr>\<rparr>)
   \<and> resp_json garbled_conflict_response = Inl (JSErrorObject syntax_error)
   \<and> handleConflict conflict_platform test_url (merge defaultOptions with_client_body)
        garbled_conflict_response fresh_world =
       (Inr None,
        \<lparr>trace = [],
         logger = \<lparr>logEntries =
                      [\<lparr>entry_id = 0, entry_error = syntax_error,
                        entry_type = SYNTAX_ERROR, entry_component = ''safe-fetch-conflict'',
                        entry_extra =
                          ConflictInfo test_url (merge defaultOptions with_client_body)\<rparr>],
                   maxLogEntries = 1000, uuids_drawn = 1\<rparr>\<rparr>)
   \<and> parse_client_body conflict_platform (merge defaultOptions with_broken_body)
       = Inl syntax_error
   \<and> fetch conflict_platform defaultOptions test_url with_broken_body fresh_world =
       (Resolved \<lparr>data = None, error = Some (JSErrorObject (http_error 409)),
                  status = Some 409, headers = Some []\<rparr>,
        \<lparr>trace = [Call Primary test_url (Some broken_body)],
         logger = \<lparr>logEntries =
                      [\<lparr>entry_id = 0, entry_error = syntax_error,
                        entry_type = SYNTAX_ERROR, entry_component = ''safe-fetch-conflict'',
                        entry_extra =
                          ConflictInfo test_url (merge defaultOptions with_broken_body)\<rparr>],
                   maxLogEntries = 1000, uuids_drawn = 1\<rparr>\<rparr>)"
proof -
  let ?m = "merge defaultOptions with_client_body"
  let ?mb = "merge defaultOptions with_broken_body"
  let ?w1 = "fresh_world\<lparr>trace := trace fresh_world @ [Call Primary test_url (Some client_body)]\<rparr>"
  let ?wb = "fresh_world\<lparr>trace := trace fresh_world @ [Call Primary test_url (Some broken_body)]\<rparr>"
  let ?res = "\<lparr>data = Some client_data, error = None, status = Some 200,
               headers = Some (resp_headers conflict_response)\<rparr>"
  let ?l1 = "no_locals\<lparr>lastStatus := Some 409,
               lastHeaders := Some (resp_headers conflict_response)\<rparr>"
  let ?lb = "no_locals\<lparr>lastStatus := Some 409,
               lastHeaders := Some (resp_headers conflict_response),
               lastError := Some (JSErrorObject (http_error 409))\<rparr>"
  let ?logb = "logged syntax_error ''safe-fetch-conflict'' (ConflictInfo test_url ?mb) ?wb"
  note c1 = timestamp_conflict_resolution [where P = conflict_platform and c = client_data
      and s = server_data and m = ?m and response = conflict_response
      and cd = "Some client_data" and v = client_data and url = test_url and w = ?w1]
  have r: "resolve_timestamp conflict_platform (Some client_data) server_data = Inr client_data"
    using c1 conflict_sample_facts by simp
  have hc: "handleConflict conflict_platform test_url ?m conflict_response ?w1
      = (Inr (Some client_data), ?w1)"
    using c1 conflict_sample_facts r by simp
  note c2 = timestamp_conflict_resolution [where P = conflict_platform and m = ?m
      and response = conflict_response and url = test_url and w = fresh_world and a = 0
      and v = client_data and ?w2.0 = ?w1 and l = no_locals and opts = with_client_body
      and url' = test_url and opts' = with_client_body and d = defaultOptions
      and ?w0.0 = fresh_world and r = ?res and l' = ?l1 and w' = ?w1]
  have lp: "fetch_loop conflict_platform test_url with_client_body ?m 0 no_locals fresh_world
      = (Returned ?res, ?l1, ?w1)"
    using c2 hc conflict_sample_facts fresh_facts by simp
  have f1: "fetch conflict_platform defaultOptions test_url with_client_body fresh_world
      = (Resolved ?res, ?w1)"
    using c2 lp by blast
  note c3 = timestamp_conflict_resolution [where P = odd_conflict_platform and c = client_data
      and s = odd_data and m = ?m and response = odd_conflict_response
      and cd = "Some client_data" and t = primitive_error and url = test_url
      and w = fresh_world]
  have r3: "resolve_timestamp odd_conflict_platform (Some client_data) odd_data
      = Inl primitive_error"
    using c3 odd_sample_facts by simp
  have h3: "handleConflict odd_conflict_platform test_url ?m odd_conflict_response fresh_world
      = (Inr None, logged primitive_error ''safe-fetch-conflict'' (ConflictInfo test_url ?m)
                     fresh_world)"
    using c3 odd_sample_facts conflict_sample_facts r3 by simp
  note c4 = timestamp_conflict_resolution [where P = conflict_platform
      and m = ?m and response = garbled_conflict_response and t = syntax_error
      and url = test_url and w = fresh_world]
  have h4: "handleConflict conflict_platform test_url ?m garbled_conflict_response fresh_world
      = (Inr None, logged syntax_error ''safe-fetch-conflict'' (ConflictInfo test_url ?m)
                     fresh_world)"
    using c4 odd_sample_facts by simp
  note c5 = timestamp_conflict_resolution [where P = conflict_platform and s = server_data
      and m = ?mb and response = conflict_response and t = syntax_error
      and url = test_url and w = ?wb]
  have h5: "handleConflict conflict_platform test_url ?mb conflict_response ?wb
      = (Inr None, ?logb)"
    using c5 conflict_sample_facts broken_sample_facts by simp
  note c6 = timestamp_conflict_resolution [where P = conflict_platform
      and m = ?mb and response = conflict_response and url = test_url and w = fresh_world
      and a = 0 and ?w2.0 = ?logb and l = no_locals and opts = with_broken_body]
  have l6: "fetch_loop conflict_platform test_url with_broken_body ?mb 0 no_locals fresh_world
      = fetch_loop conflict_platform test_url with_broken_body ?mb (Suc 0) ?lb
          (backoff ?mb 0 ?logb)"
    using c6 h5 conflict_sample_facts broken_sample_facts fresh_facts by simp
  have e6: "fetch_loop conflict_platform test_url with_broken_body ?mb (Suc 0) ?lb
          (backoff ?mb 0 ?logb) = (Completed, ?lb, ?logb)"
    by (subst fetch_loop.simps) (simp add: broken_sample_facts backoff_def)
  have f6: "fetch conflict_platform defaultOptions test_url with_broken_body fresh_world
      = (Resolved \<lparr>data = None, error = Some (JSErrorObject (http_error 409)),
                   status = Some 409, headers = Some []\<rparr>, ?logb)"
    using l6 e6
    by (simp add: fetch_def no_locals_def[symmetric] try_fallback_def broken_sample_facts
        conflict_sample_facts)
  show ?thesis
    unfolding f1 f6 h3 h4
    using r r3 conflict_sample_facts odd_sample_facts broken_sample_facts
    by (simp add: logged_def appended_def fresh_world_def initialLogger_def sample_error_types)
qed

end
